theory Spec2Isabelle
  imports Complex_Main "HOL-Library.Sublist"
begin

section \<open>Data model\<close>

text \<open>
  The hook file of the gesture mode (\<^verbatim>\<open>useSignLanguage\<close> with a \<open>mode\<close> argument) and the
  hook file of the letter-only mode are embedded here. Numbers are JavaScript doubles in
  the source; coordinates, distances and confidences are modelled as \<open>real\<close>, frame
  counters as \<open>nat\<close>, \<^verbatim>\<open>Date.now()\<close> readings as \<open>int\<close> milliseconds. Reading a field of
  \<^verbatim>\<open>undefined\<close> throws a \<^verbatim>\<open>TypeError\<close> in the source; it is the only exception the modelled
  code can raise.
\<close>

datatype error = TypeError

text \<open>
  A landmark or a hand centre: the source reads the fields \<^verbatim>\<open>x\<close> and \<^verbatim>\<open>y\<close> only
  (named \<open>px\<close> and \<open>py\<close> here, so that \<open>x\<close> and \<open>y\<close> stay free for variables).
\<close>

record point =
  px :: real
  py :: real

type_synonym landmark = point

abbreviation (input) WRIST :: nat where "WRIST \<equiv> 0"
abbreviation (input) THUMB_MCP :: nat where "THUMB_MCP \<equiv> 2"
abbreviation (input) THUMB_TIP :: nat where "THUMB_TIP \<equiv> 4"
abbreviation (input) INDEX_MCP :: nat where "INDEX_MCP \<equiv> 5"
abbreviation (input) INDEX_PIP :: nat where "INDEX_PIP \<equiv> 6"
abbreviation (input) INDEX_TIP :: nat where "INDEX_TIP \<equiv> 8"
abbreviation (input) MIDDLE_MCP :: nat where "MIDDLE_MCP \<equiv> 9"
abbreviation (input) MIDDLE_PIP :: nat where "MIDDLE_PIP \<equiv> 10"
abbreviation (input) MIDDLE_TIP :: nat where "MIDDLE_TIP \<equiv> 12"
abbreviation (input) RING_PIP :: nat where "RING_PIP \<equiv> 14"
abbreviation (input) RING_TIP :: nat where "RING_TIP \<equiv> 16"
abbreviation (input) PINKY_PIP :: nat where "PINKY_PIP \<equiv> 18"
abbreviation (input) PINKY_TIP :: nat where "PINKY_TIP \<equiv> 20"

text \<open>
  The source writes every distance out as
  \<^verbatim>\<open>Math.sqrt(Math.pow(a.x - b.x, 2) + Math.pow(a.y - b.y, 2))\<close>.
\<close>

definition dist2d :: "point \<Rightarrow> point \<Rightarrow> real" where
  "dist2d a b = sqrt ((px a - px b)\<^sup>2 + (py a - py b)\<^sup>2)"

record fingers =
  thumb :: bool
  index :: bool
  middle :: bool
  ring :: bool
  pinky :: bool

record classification =
  letter :: "string option"
  confidence :: real

section \<open>Finger-state extractor\<close>

text \<open>\<^verbatim>\<open>landmarks[i]\<close> is \<^verbatim>\<open>undefined\<close> out of range, and reading its \<^verbatim>\<open>.x\<close> throws.\<close>

definition isFingerExtended :: "landmark list \<Rightarrow> nat \<Rightarrow> nat \<Rightarrow> error + bool" where
  "isFingerExtended landmarks tipIdx pipIdx =
     (if WRIST < length landmarks \<and> tipIdx < length landmarks \<and> pipIdx < length landmarks
      then
        (let wrist = landmarks ! WRIST;
             tip = landmarks ! tipIdx;
             pip = landmarks ! pipIdx;
             tipDist = dist2d tip wrist;
             pipDist = dist2d pip wrist
         in Inr (tipDist > pipDist * 1.1))
      else Inl TypeError)"

definition isThumbExtended :: "landmark list \<Rightarrow> error + bool" where
  "isThumbExtended landmarks =
     (if THUMB_TIP < length landmarks \<and> WRIST < length landmarks \<and> 5 < length landmarks
      then
        (let thumbTip = landmarks ! THUMB_TIP;
             wrist = landmarks ! WRIST;
             indexMcp = landmarks ! 5;
             tipDist = dist2d thumbTip wrist;
             refDist = dist2d indexMcp wrist
         in Inr (tipDist > refDist * 1.2))
      else Inl TypeError)"

definition getFingerStates :: "landmark list \<Rightarrow> error + fingers" where
  "getFingerStates landmarks =
     (case isThumbExtended landmarks of Inl e \<Rightarrow> Inl e | Inr t \<Rightarrow>
      case isFingerExtended landmarks INDEX_TIP INDEX_PIP of Inl e \<Rightarrow> Inl e | Inr i \<Rightarrow>
      case isFingerExtended landmarks MIDDLE_TIP MIDDLE_PIP of Inl e \<Rightarrow> Inl e | Inr m \<Rightarrow>
      case isFingerExtended landmarks RING_TIP RING_PIP of Inl e \<Rightarrow> Inl e | Inr r \<Rightarrow>
      case isFingerExtended landmarks PINKY_TIP PINKY_PIP of Inl e \<Rightarrow> Inl e | Inr p \<Rightarrow>
        Inr \<lparr>thumb = t, index = i, middle = m, ring = r, pinky = p\<rparr>)"

section \<open>Static pose classifier (gesture-mode file)\<close>

text \<open>
  \<^verbatim>\<open>recognizeASL\<close> is a sequence of blocks of the shape
  \<^verbatim>\<open>if (fingers...) { measurements; if (test) return {letter, confidence}; }\<close>.
  Each block is one definition below, in the order of the source: it gives \<open>Some\<close> result
  when the block returns and \<open>None\<close> when control falls through to the next block.
  The blocks are only run after \<^verbatim>\<open>getFingerStates\<close> has returned, that is on at least 21
  landmarks, so every index they read is in range.
\<close>

abbreviation ret :: "string \<Rightarrow> real \<Rightarrow> classification option" where
  "ret l c \<equiv> Some \<lparr>letter = Some l, confidence = c\<rparr>"

definition extendedCount :: "fingers \<Rightarrow> nat" where
  "extendedCount f = length (filter (\<lambda>b. b) [thumb f, index f, middle f, ring f, pinky f])"

definition letterE :: "fingers \<Rightarrow> landmark list \<Rightarrow> classification option" where
  "letterE f landmarks =
     (if extendedCount f = 0 then
        (let thumbTip = landmarks ! THUMB_TIP;
             wrist = landmarks ! WRIST;
             indexMcp = landmarks ! 5;
             thumbDist = dist2d thumbTip wrist;
             refDist = dist2d indexMcp wrist
         in if thumbDist < refDist * 0.7 then ret ''E'' 0.9 else None)
      else None)"

definition letterO :: "fingers \<Rightarrow> landmark list \<Rightarrow> classification option" where
  "letterO f landmarks =
     (if \<not> index f \<and> \<not> middle f \<and> \<not> ring f \<and> \<not> pinky f \<and> thumb f then
        (let thumbTip = landmarks ! THUMB_TIP;
             indexTip = landmarks ! INDEX_TIP;
             dist = dist2d thumbTip indexTip
         in if dist < 0.12 then ret ''O'' 0.85 else None)
      else None)"

definition letterT :: "fingers \<Rightarrow> landmark list \<Rightarrow> classification option" where
  "letterT f landmarks =
     (if \<not> index f \<and> \<not> middle f \<and> \<not> ring f \<and> \<not> pinky f \<and> thumb f then
        (let thumbTip = landmarks ! THUMB_TIP;
             indexPip = landmarks ! INDEX_PIP;
             middlePip = landmarks ! MIDDLE_PIP;
             distIndex = dist2d thumbTip indexPip;
             distMiddle = dist2d thumbTip middlePip
         in if distIndex < 0.12 \<and> distMiddle < 0.12 then ret ''T'' 0.8 else None)
      else None)"

definition letterA :: "fingers \<Rightarrow> landmark list \<Rightarrow> classification option" where
  "letterA f landmarks =
     (if \<not> index f \<and> \<not> middle f \<and> \<not> ring f \<and> \<not> pinky f \<and> thumb f then
        (let thumbTip = landmarks ! THUMB_TIP;
             indexTip = landmarks ! INDEX_TIP;
             dist = dist2d thumbTip indexTip
         in if dist \<ge> 0.12 then ret ''A'' 0.9 else None)
      else None)"

definition letterB :: "fingers \<Rightarrow> landmark list \<Rightarrow> classification option" where
  "letterB f landmarks =
     (if index f \<and> middle f \<and> ring f \<and> pinky f \<and> \<not> thumb f then ret ''B'' 0.9 else None)"

text \<open>The C block has no finger-state condition: it is a bare \<^verbatim>\<open>{ ... }\<close> scope.\<close>

definition letterC :: "fingers \<Rightarrow> landmark list \<Rightarrow> classification option" where
  "letterC f landmarks =
     (let wrist = landmarks ! WRIST;
          thumbDist = dist2d (landmarks ! THUMB_TIP) wrist;
          indexDist = dist2d (landmarks ! INDEX_TIP) wrist;
          middleDist = dist2d (landmarks ! MIDDLE_TIP) wrist;
          ringDist = dist2d (landmarks ! RING_TIP) wrist;
          pinkyDist = dist2d (landmarks ! PINKY_TIP) wrist;
          maxDist = max thumbDist (max indexDist (max middleDist (max ringDist pinkyDist)));
          minDist = min thumbDist (min indexDist (min middleDist (min ringDist pinkyDist)))
      in if maxDist - minDist < 0.15 \<and> maxDist < 0.5 \<and> maxDist > 0.15 then
           (if indexDist > 0.2 \<and> middleDist > 0.2 \<and> ringDist > 0.2 \<and> pinkyDist > 0.2
            then ret ''C'' 0.8 else None)
         else None)"

definition letterM :: "fingers \<Rightarrow> landmark list \<Rightarrow> classification option" where
  "letterM f landmarks =
     (if index f \<and> middle f \<and> ring f \<and> \<not> pinky f \<and> \<not> thumb f then ret ''M'' 0.75 else None)"

definition letterS :: "fingers \<Rightarrow> landmark list \<Rightarrow> classification option" where
  "letterS f landmarks =
     (if \<not> index f \<and> \<not> middle f \<and> \<not> ring f \<and> \<not> pinky f \<and> thumb f then ret ''S'' 0.85 else None)"

definition letterD :: "fingers \<Rightarrow> landmark list \<Rightarrow> classification option" where
  "letterD f landmarks =
     (if index f \<and> \<not> middle f \<and> \<not> ring f \<and> \<not> pinky f \<and> \<not> thumb f then
        (let indexTip = landmarks ! INDEX_TIP;
             indexMcp = landmarks ! INDEX_MCP;
             indexUp = (py indexTip < py indexMcp);
             indexStraight = (\<bar>px indexTip - px indexMcp\<bar> < \<bar>py indexTip - py indexMcp\<bar>)
         in if indexUp \<and> indexStraight then ret ''D'' 0.9 else None)
      else None)"

definition letterF :: "fingers \<Rightarrow> landmark list \<Rightarrow> classification option" where
  "letterF f landmarks =
     (if middle f \<and> ring f \<and> pinky f then
        (let thumbTip = landmarks ! THUMB_TIP;
             indexTip = landmarks ! INDEX_TIP;
             dist = dist2d thumbTip indexTip
         in if dist < 0.15 then ret ''F'' 0.8 else None)
      else None)"

definition letterU :: "fingers \<Rightarrow> landmark list \<Rightarrow> classification option" where
  "letterU f landmarks =
     (if index f \<and> middle f \<and> \<not> ring f \<and> \<not> pinky f \<and> \<not> thumb f then
        (let indexTip = landmarks ! INDEX_TIP;
             middleTip = landmarks ! MIDDLE_TIP;
             indexPip = landmarks ! INDEX_PIP;
             middlePip = landmarks ! MIDDLE_PIP;
             indexUp = (py indexTip < py indexPip);
             middleUp = (py middleTip < py middlePip)
         in if indexUp \<and> middleUp then
              (let dist = dist2d indexTip middleTip
               in if dist < 0.06 then ret ''U'' 0.85 else None)
            else None)
      else None)"

definition letterR :: "fingers \<Rightarrow> landmark list \<Rightarrow> classification option" where
  "letterR f landmarks =
     (if index f \<and> middle f \<and> \<not> ring f \<and> \<not> pinky f \<and> \<not> thumb f then
        (let indexTip = landmarks ! INDEX_TIP;
             middleTip = landmarks ! MIDDLE_TIP;
             indexPip = landmarks ! INDEX_PIP;
             middlePip = landmarks ! MIDDLE_PIP;
             tipDist = dist2d indexTip middleTip;
             pipDist = dist2d indexPip middlePip;
             indexUp = (py indexTip < py indexPip);
             middleUp = (py middleTip < py middlePip);
             indexMcp = landmarks ! INDEX_MCP;
             middleMcp = landmarks ! MIDDLE_MCP;
             indexVertical = (\<bar>py indexTip - py indexMcp\<bar> > \<bar>px indexTip - px indexMcp\<bar>);
             middleVertical = (\<bar>py middleTip - py middleMcp\<bar> > \<bar>px middleTip - px middleMcp\<bar>)
         in if tipDist < pipDist * 0.8 \<and> (\<not> indexUp \<or> \<not> middleUp)
               \<and> (indexVertical \<or> middleVertical)
            then ret ''R'' 0.85 else None)
      else None)"

definition letterH :: "fingers \<Rightarrow> landmark list \<Rightarrow> classification option" where
  "letterH f landmarks =
     (if index f \<and> middle f \<and> \<not> ring f \<and> \<not> pinky f \<and> \<not> thumb f then
        (let indexTip = landmarks ! INDEX_TIP;
             middleTip = landmarks ! MIDDLE_TIP;
             indexMcp = landmarks ! INDEX_MCP;
             middleMcp = landmarks ! MIDDLE_MCP;
             indexHorizontal = (\<bar>px indexTip - px indexMcp\<bar> > \<bar>py indexTip - py indexMcp\<bar> * 1.2);
             middleHorizontal = (\<bar>px middleTip - px middleMcp\<bar> > \<bar>py middleTip - py middleMcp\<bar> * 1.2);
             dist = dist2d indexTip middleTip
         in if indexHorizontal \<and> middleHorizontal \<and> dist < 0.08 then ret ''H'' 0.85 else None)
      else None)"

definition letterG :: "fingers \<Rightarrow> landmark list \<Rightarrow> classification option" where
  "letterG f landmarks =
     (if index f \<and> \<not> middle f \<and> \<not> ring f \<and> \<not> pinky f \<and> thumb f then
        (let indexTip = landmarks ! INDEX_TIP;
             indexMcp = landmarks ! INDEX_MCP;
             horizontal = (\<bar>px indexTip - px indexMcp\<bar> > \<bar>py indexTip - py indexMcp\<bar>)
         in if horizontal then ret ''G'' 0.8 else None)
      else None)"

definition letterI :: "fingers \<Rightarrow> landmark list \<Rightarrow> classification option" where
  "letterI f landmarks =
     (if \<not> index f \<and> \<not> middle f \<and> \<not> ring f \<and> pinky f \<and> \<not> thumb f then ret ''I'' 0.9 else None)"

definition letterJ :: "fingers \<Rightarrow> landmark list \<Rightarrow> classification option" where
  "letterJ f landmarks =
     (if index f \<and> \<not> middle f \<and> \<not> ring f \<and> pinky f \<and> thumb f then ret ''J'' 0.8 else None)"

definition letterL :: "fingers \<Rightarrow> landmark list \<Rightarrow> classification option" where
  "letterL f landmarks =
     (if thumb f \<and> index f \<and> \<not> middle f \<and> \<not> ring f \<and> \<not> pinky f then ret ''L'' 0.9 else None)"

definition letterY :: "fingers \<Rightarrow> landmark list \<Rightarrow> classification option" where
  "letterY f landmarks =
     (if thumb f \<and> \<not> index f \<and> \<not> middle f \<and> \<not> ring f \<and> pinky f then ret ''Y'' 0.9 else None)"

definition letterP :: "fingers \<Rightarrow> landmark list \<Rightarrow> classification option" where
  "letterP f landmarks =
     (if index f \<and> middle f \<and> \<not> ring f \<and> \<not> pinky f \<and> thumb f then
        (let indexTip = landmarks ! INDEX_TIP;
             indexMcp = landmarks ! INDEX_MCP;
             pointingDown = (py indexTip > py indexMcp + 0.05)
         in if pointingDown then ret ''P'' 0.8 else None)
      else None)"

definition letterQ :: "fingers \<Rightarrow> landmark list \<Rightarrow> classification option" where
  "letterQ f landmarks =
     (if index f \<and> \<not> middle f \<and> \<not> ring f \<and> \<not> pinky f \<and> thumb f then
        (let indexTip = landmarks ! INDEX_TIP;
             indexMcp = landmarks ! INDEX_MCP;
             pointingDown = (py indexTip > py indexMcp + 0.05)
         in if pointingDown then ret ''Q'' 0.8 else None)
      else None)"

text \<open>The first K block and the first V block.\<close>

definition letterK :: "fingers \<Rightarrow> landmark list \<Rightarrow> classification option" where
  "letterK f landmarks =
     (if index f \<and> middle f \<and> \<not> ring f \<and> \<not> pinky f \<and> thumb f then ret ''K'' 0.85 else None)"

definition letterV :: "fingers \<Rightarrow> landmark list \<Rightarrow> classification option" where
  "letterV f landmarks =
     (if index f \<and> middle f \<and> \<not> ring f \<and> \<not> pinky f \<and> \<not> thumb f then
        (let indexTip = landmarks ! INDEX_TIP;
             middleTip = landmarks ! MIDDLE_TIP;
             dist = dist2d indexTip middleTip
         in if dist > 0.05 then ret ''V'' 0.9 else None)
      else None)"

text \<open>The second K block and the second V block, which follow the first pair directly.\<close>

definition letterK2 :: "fingers \<Rightarrow> landmark list \<Rightarrow> classification option" where
  "letterK2 f landmarks =
     (if index f \<and> middle f \<and> \<not> ring f \<and> \<not> pinky f \<and> thumb f then ret ''K'' 0.85 else None)"

definition letterV2 :: "fingers \<Rightarrow> landmark list \<Rightarrow> classification option" where
  "letterV2 f landmarks =
     (if index f \<and> middle f \<and> \<not> ring f \<and> \<not> pinky f \<and> \<not> thumb f then
        (let indexTip = landmarks ! INDEX_TIP;
             middleTip = landmarks ! MIDDLE_TIP;
             dist = dist2d indexTip middleTip
         in if dist > 0.05 then ret ''V'' 0.9 else None)
      else None)"

definition letterN :: "fingers \<Rightarrow> landmark list \<Rightarrow> classification option" where
  "letterN f landmarks =
     (if index f \<and> middle f \<and> \<not> ring f \<and> \<not> pinky f \<and> \<not> thumb f then ret ''N'' 0.75 else None)"

definition letterW :: "fingers \<Rightarrow> landmark list \<Rightarrow> classification option" where
  "letterW f landmarks =
     (if index f \<and> middle f \<and> ring f \<and> \<not> pinky f then ret ''W'' 0.9 else None)"

definition letterX :: "fingers \<Rightarrow> landmark list \<Rightarrow> classification option" where
  "letterX f landmarks =
     (if \<not> index f \<and> \<not> middle f \<and> \<not> ring f \<and> \<not> pinky f \<and> \<not> thumb f then
        (let indexTip = landmarks ! INDEX_TIP;
             indexPip = landmarks ! INDEX_PIP;
             indexMcp = landmarks ! INDEX_MCP;
             wrist = landmarks ! WRIST;
             tipDist = dist2d indexTip wrist;
             pipDist = dist2d indexPip wrist;
             mcpDist = dist2d indexMcp wrist
         in if tipDist < pipDist \<and> tipDist > mcpDist then ret ''X'' 0.8 else None)
      else None)"

definition letterZ :: "fingers \<Rightarrow> landmark list \<Rightarrow> classification option" where
  "letterZ f landmarks =
     (if index f \<and> \<not> middle f \<and> \<not> ring f \<and> \<not> pinky f \<and> \<not> thumb f then
        (let indexTip = landmarks ! INDEX_TIP;
             indexMcp = landmarks ! INDEX_MCP;
             indexUp = (py indexTip < py indexMcp);
             indexDiagonal = (\<bar>px indexTip - px indexMcp\<bar> > \<bar>py indexTip - py indexMcp\<bar> * 0.5)
         in if indexUp \<and> indexDiagonal then ret ''Z'' 0.7 else None)
      else None)"

text \<open>Running the blocks in order: the first one that returns decides.\<close>

primrec firstMatch :: "'a option list \<Rightarrow> 'a option" where
  "firstMatch [] = None"
| "firstMatch (b # bs) = (case b of Some r \<Rightarrow> Some r | None \<Rightarrow> firstMatch bs)"

definition noMatch :: classification where
  "noMatch = \<lparr>letter = None, confidence = 0\<rparr>"

definition recognizeASL :: "landmark list \<Rightarrow> error + classification" where
  "recognizeASL landmarks =
     (case getFingerStates landmarks of
        Inl e \<Rightarrow> Inl e
      | Inr f \<Rightarrow>
          Inr (case firstMatch
                 [letterE f landmarks, letterO f landmarks, letterT f landmarks,
                  letterA f landmarks, letterB f landmarks, letterC f landmarks,
                  letterM f landmarks, letterS f landmarks, letterD f landmarks,
                  letterF f landmarks, letterU f landmarks, letterR f landmarks,
                  letterH f landmarks, letterG f landmarks, letterI f landmarks,
                  letterJ f landmarks, letterL f landmarks, letterY f landmarks,
                  letterP f landmarks, letterQ f landmarks,
                  letterK f landmarks, letterV f landmarks,
                  letterK2 f landmarks, letterV2 f landmarks,
                  letterN f landmarks, letterW f landmarks, letterX f landmarks,
                  letterZ f landmarks]
               of Some r \<Rightarrow> r | None \<Rightarrow> noMatch))"

text \<open>The same classifier with the second K block and the second V block taken out.\<close>

definition recognizeASL_dedup :: "landmark list \<Rightarrow> error + classification" where
  "recognizeASL_dedup landmarks =
     (case getFingerStates landmarks of
        Inl e \<Rightarrow> Inl e
      | Inr f \<Rightarrow>
          Inr (case firstMatch
                 [letterE f landmarks, letterO f landmarks, letterT f landmarks,
                  letterA f landmarks, letterB f landmarks, letterC f landmarks,
                  letterM f landmarks, letterS f landmarks, letterD f landmarks,
                  letterF f landmarks, letterU f landmarks, letterR f landmarks,
                  letterH f landmarks, letterG f landmarks, letterI f landmarks,
                  letterJ f landmarks, letterL f landmarks, letterY f landmarks,
                  letterP f landmarks, letterQ f landmarks,
                  letterK f landmarks, letterV f landmarks,
                  letterN f landmarks, letterW f landmarks, letterX f landmarks,
                  letterZ f landmarks]
               of Some r \<Rightarrow> r | None \<Rightarrow> noMatch))"

section \<open>Motion frames and gesture detectors\<close>

text \<open>
  A motion frame as \<^verbatim>\<open>onResults\<close> builds it (the optional \<^verbatim>\<open>faceLandmarks\<close> field is never
  written or read). The field \<open>landmarks\<close> is always an array, so the detectors' guard
  \<^verbatim>\<open>firstFrame && firstFrame.landmarks\<close> is always true.
\<close>

record MotionFrame =
  timestamp :: int
  handCenter :: point
  handShape :: string
  landmarks :: "landmark list"

datatype gestureType =
  G_hello | G_yes | G_no | G_thank_you | G_please | G_help | G_love | G_regret

text \<open>
  \<open>G_regret\<close> is the source's pattern type \<^verbatim>\<open>'sorry'\<close>. The fields \<open>ptype\<close> and \<open>pconfidence\<close>
  are \<^verbatim>\<open>type\<close> and \<^verbatim>\<open>confidence\<close> of \<^verbatim>\<open>MotionPattern\<close>.
\<close>

record MotionPattern =
  ptype :: gestureType
  detected :: bool
  pconfidence :: real

text \<open>The module-level variable \<^verbatim>\<open>faceDetectionState\<close>.\<close>

record FaceCue =
  chinDetected :: bool
  chinPosition :: "point option"

definition lastN :: "nat \<Rightarrow> 'a list \<Rightarrow> 'a list" where
  \<comment> \<open>\<^verbatim>\<open>xs.slice(-n)\<close>\<close>
  "lastN n xs = drop (length xs - n) xs"

definition getHandCenter :: "landmark list \<Rightarrow> point" where
  "getHandCenter lms =
     (let x = foldl (\<lambda>acc p. acc + px p) 0 lms;
          y = foldl (\<lambda>acc p. acc + py p) 0 lms
      in \<lparr>px = x / real (length lms), py = y / real (length lms)\<rparr>)"

text \<open>
  \<^verbatim>\<open>Math.atan2(y, x)\<close> on real numbers (signed zeros and NaN are not modelled).
\<close>

definition atan2 :: "real \<Rightarrow> real \<Rightarrow> real" where
  "atan2 y x =
     (if x > 0 then arctan (y / x)
      else if x < 0 then (if y \<ge> 0 then arctan (y / x) + pi else arctan (y / x) - pi)
      else if y > 0 then pi / 2
      else if y < 0 then - (pi / 2)
      else 0)"

text \<open>The two normalising loops
  \<^verbatim>\<open>while (angleDiff > Math.PI) angleDiff -= 2 * Math.PI;\<close> and
  \<^verbatim>\<open>while (angleDiff < -Math.PI) angleDiff += 2 * Math.PI;\<close>.\<close>

function whileAbovePi :: "real \<Rightarrow> real" where
  "whileAbovePi a = (if a > pi then whileAbovePi (a - 2 * pi) else a)"
  by pat_completeness auto
termination
proof (relation "measure (\<lambda>a. nat \<lceil>a / (2 * pi)\<rceil>)")
  show "wf (measure (\<lambda>a. nat \<lceil>a / (2 * pi)\<rceil>))" by simp
next
  fix a :: real
  assume a: "pi < a"
  have "(a - 2 * pi) / (2 * pi) = a / (2 * pi) - 1"
    by (simp add: diff_divide_distrib)
  then have c: "\<lceil>(a - 2 * pi) / (2 * pi)\<rceil> = \<lceil>a / (2 * pi)\<rceil> - 1"
    by (simp only: ceiling_diff_one)
  have "0 < a" using a pi_gt_zero by linarith
  moreover have "0 < 2 * pi" using pi_gt_zero by simp
  ultimately have "0 < a / (2 * pi)" by (rule divide_pos_pos)
  then have "0 < \<lceil>a / (2 * pi)\<rceil>" by (simp only: zero_less_ceiling)
  then have "nat (\<lceil>a / (2 * pi)\<rceil> - 1) < nat \<lceil>a / (2 * pi)\<rceil>" by arith
  then show "(a - 2 * pi, a) \<in> measure (\<lambda>a. nat \<lceil>a / (2 * pi)\<rceil>)"
    unfolding in_measure c .
qed

function whileBelowNegPi :: "real \<Rightarrow> real" where
  "whileBelowNegPi a = (if a < - pi then whileBelowNegPi (a + 2 * pi) else a)"
  by pat_completeness auto
termination
proof (relation "measure (\<lambda>a. nat \<lceil>(- a) / (2 * pi)\<rceil>)")
  show "wf (measure (\<lambda>a. nat \<lceil>(- a) / (2 * pi)\<rceil>))" by simp
next
  fix a :: real
  assume a: "a < - pi"
  have "(- (a + 2 * pi)) / (2 * pi) = (- a) / (2 * pi) - 1"
    by (simp add: diff_divide_distrib)
  then have c: "\<lceil>(- (a + 2 * pi)) / (2 * pi)\<rceil> = \<lceil>(- a) / (2 * pi)\<rceil> - 1"
    by (simp only: ceiling_diff_one)
  have "0 < - a" using a pi_gt_zero by linarith
  moreover have "0 < 2 * pi" using pi_gt_zero by simp
  ultimately have "0 < (- a) / (2 * pi)" by (rule divide_pos_pos)
  then have "0 < \<lceil>(- a) / (2 * pi)\<rceil>" by (simp only: zero_less_ceiling)
  then have "nat (\<lceil>(- a) / (2 * pi)\<rceil> - 1) < nat \<lceil>(- a) / (2 * pi)\<rceil>" by arith
  then show "(a + 2 * pi, a) \<in> measure (\<lambda>a. nat \<lceil>(- a) / (2 * pi)\<rceil>)"
    unfolding in_measure c .
qed

definition normalizeAngle :: "real \<Rightarrow> real" where
  "normalizeAngle a = whileBelowNegPi (whileAbovePi a)"

definition isFlatHandOf :: "MotionFrame \<Rightarrow> error + bool" where
  \<comment> \<open>the detectors' \<^verbatim>\<open>isFlatHand\<close>: all five fingers of the frame extended\<close>
  "isFlatHandOf firstFrame =
     (case getFingerStates (landmarks firstFrame) of
        Inl e \<Rightarrow> Inl e
      | Inr f \<Rightarrow> Inr (thumb f \<and> index f \<and> middle f \<and> ring f \<and> pinky f))"

definition isFistOf :: "MotionFrame \<Rightarrow> error + bool" where
  \<comment> \<open>the detectors' \<^verbatim>\<open>isFist\<close>: thumb extended, the other fingers closed\<close>
  "isFistOf firstFrame =
     (case getFingerStates (landmarks firstFrame) of
        Inl e \<Rightarrow> Inl e
      | Inr f \<Rightarrow> Inr (thumb f \<and> \<not> index f \<and> \<not> middle f \<and> \<not> ring f \<and> \<not> pinky f))"

definition detectWaveMotion :: "MotionFrame list \<Rightarrow> MotionPattern option" where
  "detectWaveMotion frames =
     (if length frames < 8 then None
      else
        (let recentFrames = lastN 8 frames;
             handCenters = map handCenter recentFrames;
             startY = py (handCenters ! 0);
             startX = px (handCenters ! 0);
             endX = px (handCenters ! (length handCenters - 1));
             startedAtForehead = (startY < 0.4);
             movedForward = (endX < startX - 0.05);
             movedOutward = (\<bar>endX - startX\<bar> > 0.08)
         in if startedAtForehead \<and> (movedForward \<or> movedOutward)
            then Some \<lparr>ptype = G_hello, detected = True, pconfidence = 0.8\<rparr>
            else None))"

definition detectThankYouMotion :: "FaceCue \<Rightarrow> MotionFrame list \<Rightarrow> error + MotionPattern option" where
  "detectThankYouMotion face frames =
     (if length frames < 6 then Inr None
      else
        (let recentFrames = lastN 6 frames;
             handCenters = map handCenter recentFrames;
             startY = py (handCenters ! 0);
             startX = px (handCenters ! 0);
             endX = px (handCenters ! (length handCenters - 1));
             firstFrame = recentFrames ! 0
         in case isFlatHandOf firstFrame of
              Inl e \<Rightarrow> Inl e
            | Inr isFlatHand \<Rightarrow>
                (let startedAtChin =
                       (chinDetected face \<and>
                        (case chinPosition face of None \<Rightarrow> False
                         | Some chin \<Rightarrow> \<bar>startY - py chin\<bar> < 0.15));
                     movedForward = (endX < startX - 0.06)
                 in if startedAtChin \<and> movedForward \<and> isFlatHand
                    then Inr (Some \<lparr>ptype = G_thank_you, detected = True, pconfidence = 0.9\<rparr>)
                    else if isFlatHand \<and> startY \<ge> 0.4 \<and> startY \<le> 0.7 \<and> movedForward
                    then Inr (Some \<lparr>ptype = G_thank_you, detected = True, pconfidence = 0.8\<rparr>)
                    else Inr None)))"

text \<open>
  The angle loops of the Please and the Sorry detector: for \<open>i\<close> from 1, the normalised
  difference of the angles of centre \<open>i\<close> and centre \<open>i - 1\<close> seen from \<open>(ox, oy)\<close>.
\<close>

definition angleDiffAt :: "real \<Rightarrow> real \<Rightarrow> point list \<Rightarrow> nat \<Rightarrow> real" where
  "angleDiffAt ox oy handCenters i =
     (let prevAngle = atan2 (py (handCenters ! (i - 1)) - oy) (px (handCenters ! (i - 1)) - ox);
          currAngle = atan2 (py (handCenters ! i) - oy) (px (handCenters ! i) - ox)
      in normalizeAngle (currAngle - prevAngle))"

definition detectPleaseMotion :: "MotionFrame list \<Rightarrow> error + MotionPattern option" where
  "detectPleaseMotion frames =
     (if length frames < 10 then Inr None
      else
        (let recentFrames = lastN 10 frames;
             handCenters = map handCenter recentFrames;
             firstFrame = recentFrames ! 0
         in case isFlatHandOf firstFrame of
              Inl e \<Rightarrow> Inl e
            | Inr isFlatHand \<Rightarrow>
                (let startY = py (handCenters ! 0);
                     avgY = foldl (\<lambda>sum c. sum + py c) 0 handCenters / real (length handCenters);
                     startedAtChest = (startY \<ge> 0.35 \<and> startY \<le> 0.65);
                     stayedAtChest = (avgY \<ge> 0.35 \<and> avgY \<le> 0.65);
                     (totalAngleChange, directionConsistency) =
                       foldl (\<lambda>(total, cons) i.
                                (let angleDiff = angleDiffAt (px (handCenters ! 0)) (py (handCenters ! 0)) handCenters i
                                 in (total + \<bar>angleDiff\<bar>, if \<bar>angleDiff\<bar> > 0.1 then cons + 1 else cons)))
                             (0, 0 :: nat) [1 ..< length handCenters];
                     isCircularMotion = (totalAngleChange > pi * 0.75 \<and> directionConsistency \<ge> 6)
                 in if isFlatHand \<and> startedAtChest \<and> stayedAtChest \<and> isCircularMotion
                    then Inr (Some \<lparr>ptype = G_please, detected = True, pconfidence = 0.85\<rparr>)
                    else Inr None)))"

definition detectHelpMotion :: "MotionFrame list \<Rightarrow> error + MotionPattern option" where
  "detectHelpMotion frames =
     (if length frames < 6 then Inr None
      else
        (let recentFrames = lastN 6 frames;
             handCenters = map handCenter recentFrames;
             firstFrame = recentFrames ! 0;
             startY = py (handCenters ! 0);
             endY = py (handCenters ! (length handCenters - 1));
             movedUp = (endY < startY - 0.1)
         in case isFlatHandOf firstFrame of
              Inl e \<Rightarrow> Inl e
            | Inr isFlatHand \<Rightarrow>
                if isFlatHand \<and> movedUp
                then Inr (Some \<lparr>ptype = G_help, detected = True, pconfidence = 0.7\<rparr>)
                else Inr None))"

definition detectLoveMotion :: "MotionFrame list \<Rightarrow> MotionPattern option" where
  "detectLoveMotion frames =
     (if length frames < 4 then None
      else
        (let recentFrames = lastN 4 frames;
             handCenters = map handCenter recentFrames;
             centerX = foldl (\<lambda>sum c. sum + px c) 0 handCenters / real (length handCenters);
             centerY = foldl (\<lambda>sum c. sum + py c) 0 handCenters / real (length handCenters);
             atChestLevel = (centerY \<ge> 0.4 \<and> centerY \<le> 0.7);
             crossingMotion =
               list_ex (\<lambda>i. \<bar>px (handCenters ! i) - centerX\<bar> < \<bar>px (handCenters ! (i - 1)) - centerX\<bar> - 0.05)
                       [1 ..< length handCenters]
         in if atChestLevel \<and> crossingMotion
            then Some \<lparr>ptype = G_love, detected = True, pconfidence = 0.7\<rparr>
            else None))"

definition detectSorryMotion :: "MotionFrame list \<Rightarrow> error + MotionPattern option" where
  "detectSorryMotion frames =
     (if length frames < 8 then Inr None
      else
        (let recentFrames = lastN 8 frames;
             handCenters = map handCenter recentFrames;
             firstFrame = recentFrames ! 0
         in case isFistOf firstFrame of
              Inl e \<Rightarrow> Inl e
            | Inr isFist \<Rightarrow>
                (let centerY = foldl (\<lambda>sum c. sum + py c) 0 handCenters / real (length handCenters);
                     atChestLevel = (centerY \<ge> 0.4 \<and> centerY \<le> 0.7);
                     (totalAngleChange, smallCircularMotion) =
                       foldl (\<lambda>(total, small) i.
                                (let angleDiff = angleDiffAt (px (handCenters ! 0)) centerY handCenters i
                                 in (total + \<bar>angleDiff\<bar>,
                                     if \<bar>angleDiff\<bar> > 0.05 \<and> \<bar>angleDiff\<bar> < 0.3 then small + 1 else small)))
                             (0, 0 :: nat) [1 ..< length handCenters];
                     isCircularMotion =
                       (totalAngleChange > pi / 3 \<and> totalAngleChange < pi \<and> smallCircularMotion \<ge> 4)
                 in if isFist \<and> atChestLevel \<and> isCircularMotion
                    then Inr (Some \<lparr>ptype = G_regret, detected = True, pconfidence = 0.85\<rparr>)
                    else Inr None)))"

definition detectYesMotion :: "MotionFrame list \<Rightarrow> error + MotionPattern option" where
  "detectYesMotion frames =
     (if length frames < 10 then Inr None
      else
        (let recentFrames = lastN 10 frames;
             handCenters = map handCenter recentFrames;
             firstFrame = recentFrames ! 0
         in case isFistOf firstFrame of
              Inl e \<Rightarrow> Inl e
            | Inr isFist \<Rightarrow>
                (let (directionChanges, prevDirection, totalMovement) =
                       foldl (\<lambda>(changes, prevDirection, total) i.
                                (let direction = py (handCenters ! i) - py (handCenters ! (i - 1))
                                 in (if prevDirection \<noteq> 0 \<and> sgn direction \<noteq> sgn prevDirection
                                     then changes + 1 else changes,
                                     direction,
                                     total + \<bar>direction\<bar>)))
                             (0 :: nat, 0 :: real, 0 :: real) [1 ..< length handCenters]
                 in if isFist \<and> directionChanges \<ge> 2 \<and> totalMovement > 0.1
                    then Inr (Some \<lparr>ptype = G_yes, detected = True, pconfidence = 0.8\<rparr>)
                    else Inr None)))"

text \<open>The counting loop of the No detector over the last three frames.\<close>

fun countNoPose :: "nat \<Rightarrow> MotionFrame list \<Rightarrow> error + nat" where
  "countNoPose detectedCount [] = Inr detectedCount"
| "countNoPose detectedCount (frame # rest) =
     (case getFingerStates (landmarks frame) of
        Inl e \<Rightarrow> Inl e
      | Inr f \<Rightarrow>
          countNoPose
            (if thumb f \<and> index f \<and> middle f \<and> \<not> ring f \<and> \<not> pinky f
             then detectedCount + 1 else detectedCount)
            rest)"

definition detectNoMotion :: "MotionFrame list \<Rightarrow> error + MotionPattern option" where
  "detectNoMotion frames =
     (if length frames < 3 then Inr None
      else
        (let recentFrames = lastN 3 frames
         in case countNoPose 0 recentFrames of
              Inl e \<Rightarrow> Inl e
            | Inr detectedCount \<Rightarrow>
                if detectedCount \<ge> 2
                then Inr (Some \<lparr>ptype = G_no, detected = True, pconfidence = 0.8\<rparr>)
                else Inr None))"

section \<open>The hook state and \<^verbatim>\<open>onResults\<close>\<close>

record DetectionResult = classification +
  handDetected :: bool

text \<open>\<open>gconfidence\<close> is the field \<^verbatim>\<open>confidence\<close> of \<^verbatim>\<open>MotionDetectionResult\<close>.\<close>

record MotionDetectionResult =
  gesture :: "string option"
  gconfidence :: real
  motionDetected :: bool

datatype mode = Static | Motion

text \<open>
  The refs and React states of the hook, the module-level \<^verbatim>\<open>faceDetectionState\<close>, and
  \<open>faceResults\<close> for \<^verbatim>\<open>faceResultsRef.current?.multiFaceLandmarks\<close> (\<open>None\<close>: no result object
  or no such field). \<open>motionLog\<close> records the console line
  \<^verbatim>\<open>'Motion Detection - Frames:'\<close>, printed once each time the detector suite has run, with
  its frame count; the other console output and the \<^verbatim>\<open>rawDebug\<close> string are left out.
\<close>

record state =
  handDetectedFrames :: nat
  handLostFrames :: nat
  isHandStable :: bool
  faceDetectionState :: FaceCue
  faceResults :: "landmark list list option"
  motionFrames :: "MotionFrame list"
  lastMotionTime :: int
  detectionHistory :: "string list"
  lastDetectionTime :: int
  detectionResult :: DetectionResult
  motionDetectionResult :: MotionDetectionResult
  detectedText :: string
  motionLog :: "nat list"

definition initialState :: state where
  "initialState =
     \<lparr>handDetectedFrames = 0, handLostFrames = 0, isHandStable = False,
      faceDetectionState = \<lparr>chinDetected = False, chinPosition = Some \<lparr>px = 0, py = 0\<rparr>\<rparr>,
      faceResults = None, motionFrames = [], lastMotionTime = 0,
      detectionHistory = [], lastDetectionTime = 0,
      detectionResult = \<lparr>letter = None, confidence = 0, handDetected = False\<rparr>,
      motionDetectionResult = \<lparr>gesture = None, gconfidence = 0, motionDetected = False\<rparr>,
      detectedText = [], motionLog = []\<rparr>"

text \<open>
  One call of \<^verbatim>\<open>onResults\<close>: the tracker's \<^verbatim>\<open>results.multiHandLandmarks\<close> and the two
  \<^verbatim>\<open>Date.now()\<close> readings the call makes (\<^verbatim>\<open>motionNow\<close>, then \<^verbatim>\<open>now\<close>).
\<close>

record Results =
  multiHandLandmarks :: "landmark list list option"
  clockMotionNow :: int
  clockNow :: int

text \<open>The Face Mesh callback: \<^verbatim>\<open>faceResultsRef.current = results\<close>.\<close>

definition onFaceResults :: "landmark list list option \<Rightarrow> state \<Rightarrow> state" where
  "onFaceResults multiFaceLandmarks s = s\<lparr>faceResults := multiFaceLandmarks\<rparr>"

text \<open>The presence counters and the two threshold tests at the head of \<^verbatim>\<open>onResults\<close>.\<close>

definition updatePresence :: "bool \<Rightarrow> state \<Rightarrow> state" where
  "updatePresence hasHands s =
     (let s1 = (if hasHands
                then s\<lparr>handDetectedFrames := handDetectedFrames s + 1, handLostFrames := 0\<rparr>
                else s\<lparr>handLostFrames := handLostFrames s + 1, handDetectedFrames := 0\<rparr>);
          s2 = (if handDetectedFrames s1 \<ge> 3 then s1\<lparr>isHandStable := True\<rparr> else s1)
      in if handLostFrames s2 \<ge> 5 then s2\<lparr>isHandStable := False\<rparr> else s2)"

text \<open>\<^verbatim>\<open>hasHands\<close>: the result holds at least one hand.\<close>

definition hasHands :: "Results \<Rightarrow> bool" where
  "hasHands results =
     (case multiHandLandmarks results of Some (lms # others) \<Rightarrow> True | _ \<Rightarrow> False)"

text \<open>The face cue as the hand branch of \<^verbatim>\<open>onResults\<close> recomputes it.\<close>

definition updateFaceCue :: "mode \<Rightarrow> landmark list list option \<Rightarrow> error + FaceCue" where
  "updateFaceCue md faces =
     (case faces of
        Some (faceLandmarks # rest) \<Rightarrow>
          if md = Motion then
            (if 152 < length faceLandmarks then
               (let chinLandmark = faceLandmarks ! 152
                in Inr \<lparr>chinDetected = True,
                        chinPosition = Some \<lparr>px = px chinLandmark, py = py chinLandmark\<rparr>\<rparr>)
             else Inl TypeError)
          else Inr \<lparr>chinDetected = False, chinPosition = None\<rparr>
      | _ \<Rightarrow> Inr \<lparr>chinDetected = False, chinPosition = None\<rparr>)"

text \<open>\<^verbatim>\<open>push\<close> the frame, then \<^verbatim>\<open>shift\<close> once if the buffer is longer than 20.\<close>

definition pushMotionFrame :: "MotionFrame list \<Rightarrow> MotionFrame \<Rightarrow> MotionFrame list" where
  "pushMotionFrame frames motionFrame =
     (let pushed = frames @ [motionFrame]
      in if length pushed > 20 then tl pushed else pushed)"

text \<open>\<^verbatim>\<open>p && p.detected\<close> (and \<^verbatim>\<open>p?.detected\<close>) for a detector result.\<close>

definition matched :: "MotionPattern option \<Rightarrow> bool" where
  "matched p = (case p of None \<Rightarrow> False | Some m \<Rightarrow> detected m)"

definition confOf :: "MotionPattern option \<Rightarrow> real" where
  "confOf p = (case p of None \<Rightarrow> 0 | Some m \<Rightarrow> pconfidence m)"

text \<open>
  The \<^verbatim>\<open>if / else if\<close> chain over the eight detector results. Every branch but the last
  sets the gesture result to its name and the pattern's confidence, sets
  \<^verbatim>\<open>lastMotionTimeRef\<close> and empties the frame buffer; this function gives the name and
  confidence of the branch taken, \<open>None\<close> for the final \<^verbatim>\<open>else\<close>.
\<close>

definition selectGesture ::
  "MotionPattern option \<Rightarrow> MotionPattern option \<Rightarrow> MotionPattern option \<Rightarrow> MotionPattern option \<Rightarrow>
   MotionPattern option \<Rightarrow> MotionPattern option \<Rightarrow> MotionPattern option \<Rightarrow> MotionPattern option \<Rightarrow>
   (string \<times> real) option" where
  "selectGesture wavePattern thankYouPattern pleasePattern helpPattern
                 lovePattern sorryPattern yesPattern noPattern =
     (if matched wavePattern then Some (''HELLO'', confOf wavePattern)
      else if matched thankYouPattern then Some (''THANK YOU'', confOf thankYouPattern)
      else if matched pleasePattern then Some (''PLEASE'', confOf pleasePattern)
      else if matched helpPattern then Some (''HELP'', confOf helpPattern)
      else if matched lovePattern then Some (''LOVE'', confOf lovePattern)
      else if matched sorryPattern \<and> \<not> matched pleasePattern then Some (''SORRY'', confOf sorryPattern)
      else if matched yesPattern \<and> \<not> matched thankYouPattern then Some (''YES'', confOf yesPattern)
      else if matched noPattern then Some (''NO'', confOf noPattern)
      else None)"

text \<open>
  The block \<^verbatim>\<open>// Check for motion patterns\<close>: behind the test
  \<^verbatim>\<open>motionNow - lastMotionTimeRef.current > 2000\<close> the eight detectors run on the buffer,
  the console line is printed, and the chain decides. A detector that throws leaves the
  state as it was on entry.
\<close>

definition gestureCycle :: "int \<Rightarrow> state \<Rightarrow> (error \<times> state) + state" where
  "gestureCycle motionNow s =
     (if motionNow - lastMotionTime s > 2000 then
        (let frames = motionFrames s;
             wavePattern = detectWaveMotion frames
         in case detectThankYouMotion (faceDetectionState s) frames of Inl e \<Rightarrow> Inl (e, s)
            | Inr thankYouPattern \<Rightarrow>
            case detectPleaseMotion frames of Inl e \<Rightarrow> Inl (e, s) | Inr pleasePattern \<Rightarrow>
            case detectHelpMotion frames of Inl e \<Rightarrow> Inl (e, s) | Inr helpPattern \<Rightarrow>
            (let lovePattern = detectLoveMotion frames
             in case detectSorryMotion frames of Inl e \<Rightarrow> Inl (e, s) | Inr sorryPattern \<Rightarrow>
                case detectYesMotion frames of Inl e \<Rightarrow> Inl (e, s) | Inr yesPattern \<Rightarrow>
                case detectNoMotion frames of Inl e \<Rightarrow> Inl (e, s) | Inr noPattern \<Rightarrow>
                (let s1 = s\<lparr>motionLog := motionLog s @ [length frames]\<rparr>
                 in case selectGesture wavePattern thankYouPattern pleasePattern helpPattern
                           lovePattern sorryPattern yesPattern noPattern of
                      Some (name, conf) \<Rightarrow>
                        Inr (s1\<lparr>motionDetectionResult :=
                                   \<lparr>gesture = Some name, gconfidence = conf, motionDetected = True\<rparr>,
                                 lastMotionTime := motionNow,
                                 motionFrames := []\<rparr>)
                    | None \<Rightarrow>
                        Inr (s1\<lparr>motionDetectionResult :=
                                   \<lparr>gesture = None, gconfidence = 0, motionDetected = False\<rparr>\<rparr>))))
      else Inr s)"

text \<open>\<^verbatim>\<open>prev.endsWith(letter)\<close>.\<close>

definition endsWith :: "string \<Rightarrow> string \<Rightarrow> bool" where
  "endsWith prev l = (length l \<le> length prev \<and> drop (length prev - length l) prev = l)"

text \<open>
  The letter block at the end of the hand branch, the same text in both hook files. A
  \<^verbatim>\<open>null\<close> or empty letter is falsy.
\<close>

definition commitLetter :: "string option \<Rightarrow> real \<Rightarrow> int \<Rightarrow> state \<Rightarrow> state" where
  "commitLetter lt conf tnow s =
     (case lt of
        None \<Rightarrow> s
      | Some l \<Rightarrow>
          if l \<noteq> [] \<and> conf > 0.7 \<and> tnow - lastDetectionTime s > 1200 then
            (let pushed = detectionHistory s @ [l];
                 history = (if length pushed > 4 then tl pushed else pushed);
                 recentDetections = lastN 2 history;
                 isStable = list_all (\<lambda>d. d = l) recentDetections
             in if isStable then
                  s\<lparr>detectedText :=
                      (if endsWith (detectedText s) l then detectedText s else detectedText s @ l),
                    lastDetectionTime := tnow,
                    detectionHistory := []\<rparr>
                else s\<lparr>detectionHistory := history\<rparr>)
          else s)"

definition noHand :: DetectionResult where
  "noHand = \<lparr>letter = None, confidence = 0, handDetected = False\<rparr>"

text \<open>
  \<^verbatim>\<open>onResults\<close> of the gesture-mode file. The result is \<open>Inr\<close> the state after the call, or
  \<open>Inl\<close> the exception with the state as the call left it when it threw. The call of
  \<^verbatim>\<open>drawLandmarks\<close> at its head only paints the canvas and is left out (with a canvas present
  it reads the same chin landmark, so on a face of fewer than 153 landmarks it would throw
  before the counters are touched).
\<close>

definition onResults :: "mode \<Rightarrow> state \<Rightarrow> Results \<Rightarrow> (error \<times> state) + state" where
  "onResults md s results =
     (case multiHandLandmarks results of
        Some (lms # others) \<Rightarrow>
          (let s1 = updatePresence True s;
               s2 = s1\<lparr>handDetectedFrames := handDetectedFrames s1 + 1, handLostFrames := 0\<rparr>
           in case recognizeASL lms of
                Inl e \<Rightarrow> Inl (e, s2)
              | Inr c \<Rightarrow>
                  (let motionFrame =
                         \<lparr>timestamp = clockMotionNow results,
                          handCenter = getHandCenter lms,
                          handShape = (case letter c of
                                         None \<Rightarrow> ''unknown''
                                       | Some l \<Rightarrow> if l = [] then ''unknown'' else l),
                          landmarks = lms\<rparr>
                   in case updateFaceCue md (faceResults s2) of
                        Inl e \<Rightarrow> Inl (e, s2)
                      | Inr cue \<Rightarrow>
                          (let s3 = s2\<lparr>faceDetectionState := cue\<rparr>;
                               s4 = s3\<lparr>motionFrames := pushMotionFrame (motionFrames s3) motionFrame\<rparr>
                           in case gestureCycle (clockMotionNow results) s4 of
                                Inl thrown \<Rightarrow> Inl thrown
                              | Inr s5 \<Rightarrow>
                                  (let s6 = s5\<lparr>detectionResult :=
                                                 \<lparr>letter = letter c, confidence = confidence c,
                                                  handDetected = True\<rparr>\<rparr>
                                   in Inr (commitLetter (letter c) (confidence c)
                                             (clockNow results) s6)))))
      | _ \<Rightarrow>
          (let s1 = updatePresence False s
           in if \<not> isHandStable s1 then Inr (s1\<lparr>detectionResult := noHand\<rparr>) else Inr s1))"

text \<open>
  \<^verbatim>\<open>onResults\<close> of the letter-only file. Its own \<^verbatim>\<open>recognizeASL\<close> has other rules than the
  one above; it is the parameter \<open>recognize\<close> here. The call of \<^verbatim>\<open>getFingerStates\<close> is the one
  that builds the debug string. This file has no motion or face state, and those fields
  of the state are not touched.
\<close>

definition onResultsStatic ::
  "(landmark list \<Rightarrow> error + classification) \<Rightarrow> state \<Rightarrow> Results \<Rightarrow> (error \<times> state) + state" where
  "onResultsStatic recognize s results =
     (case multiHandLandmarks results of
        Some (lms # others) \<Rightarrow>
          (let s1 = updatePresence True s
           in if isHandStable s1 then
                (case recognize lms of
                   Inl e \<Rightarrow> Inl (e, s1)
                 | Inr c \<Rightarrow>
                     (case getFingerStates lms of
                        Inl e \<Rightarrow> Inl (e, s1)
                      | Inr f \<Rightarrow>
                          (let s2 = s1\<lparr>detectionResult :=
                                         \<lparr>letter = letter c, confidence = confidence c,
                                          handDetected = True\<rparr>\<rparr>
                           in Inr (commitLetter (letter c) (confidence c) (clockNow results) s2))))
              else Inr (s1\<lparr>detectionResult := noHand\<rparr>))
      | _ \<Rightarrow>
          (let s1 = updatePresence False s
           in if \<not> isHandStable s1 then Inr (s1\<lparr>detectionResult := noHand\<rparr>) else Inr s1))"

text \<open>
  A run of calls. \<^verbatim>\<open>processFrame\<close> catches what a call throws and goes on to the next
  frame, so after an exception the run continues from the state the call left.
\<close>

definition stateAfter :: "(error \<times> state) + state \<Rightarrow> state" where
  "stateAfter r = (case r of Inl (e, s) \<Rightarrow> s | Inr s \<Rightarrow> s)"

definition runFrames :: "mode \<Rightarrow> state \<Rightarrow> Results list \<Rightarrow> state" where
  "runFrames md s rs = foldl (\<lambda>st r. stateAfter (onResults md st r)) s rs"

definition runFramesStatic ::
  "(landmark list \<Rightarrow> error + classification) \<Rightarrow> state \<Rightarrow> Results list \<Rightarrow> state" where
  "runFramesStatic recognize s rs = foldl (\<lambda>st r. stateAfter (onResultsStatic recognize st r)) s rs"

text \<open>
  \<^verbatim>\<open>processFrame\<close> for one video frame, given what the two trackers report for it. The
  frame is first sent to the hand tracker, whose callback \<^verbatim>\<open>onResults\<close> runs before the
  \<^verbatim>\<open>send\<close> resolves; only then, and only in gesture mode, is it sent to Face Mesh, whose
  callback stores the face result in \<^verbatim>\<open>faceResultsRef\<close>. So \<^verbatim>\<open>onResults\<close> reads the face result
  stored while the frame before was processed. Both calls sit in one \<^verbatim>\<open>try\<close> block: when
  \<^verbatim>\<open>onResults\<close> throws, control passes to the \<^verbatim>\<open>catch\<close> and the frame is not sent to Face Mesh.
\<close>

record FrameResults =
  handResults :: Results
  multiFaceLandmarks :: "landmark list list option"

definition processFrame :: "mode \<Rightarrow> state \<Rightarrow> FrameResults \<Rightarrow> state" where
  "processFrame md s fr =
     (case onResults md s (handResults fr) of
        Inl (e, s1) \<Rightarrow> s1
      | Inr s1 \<Rightarrow> if md = Motion then onFaceResults (multiFaceLandmarks fr) s1 else s1)"

section \<open>Concrete inputs\<close>

text \<open>
  Landmark sets and calls used to run the model: a hand with all 21 landmarks at the
  origin (no finger extended, no letter), the same hand with the thumb tip moved out along
  the x axis (only the thumb extended), and hands with some finger tips moved up the y axis.
\<close>

definition origin :: point where
  "origin = \<lparr>px = 0, py = 0\<rparr>"

definition restHand :: "landmark list" where
  "restHand = replicate 21 origin"

definition thumbHand :: "real \<Rightarrow> landmark list" where
  "thumbHand d = restHand[THUMB_TIP := \<lparr>px = d, py = 0\<rparr>]"

definition tuckedThumbHand :: "landmark list" where
  "tuckedThumbHand =
     restHand[THUMB_TIP := \<lparr>px = 0.12, py = 0\<rparr>,
              INDEX_PIP := \<lparr>px = 0.1, py = 0\<rparr>,
              MIDDLE_PIP := \<lparr>px = 0.1, py = 0\<rparr>]"

text \<open>
  The thumb tip further out, at distance 0.3 from the index tip, with the index and middle
  PIP joints 0.05 away from it.
\<close>

definition farTuckedThumbHand :: "landmark list" where
  "farTuckedThumbHand =
     restHand[THUMB_TIP := \<lparr>px = 0.3, py = 0\<rparr>,
              INDEX_PIP := \<lparr>px = 0.25, py = 0\<rparr>,
              MIDDLE_PIP := \<lparr>px = 0.25, py = 0\<rparr>]"

definition threeFingerHand :: "landmark list" where
  "threeFingerHand =
     restHand[INDEX_TIP := \<lparr>px = 0, py = - 0.3\<rparr>,
              MIDDLE_TIP := \<lparr>px = 0, py = - 0.3\<rparr>,
              RING_TIP := \<lparr>px = 0, py = - 0.3\<rparr>]"

definition threeFingerThumbHand :: "landmark list" where
  "threeFingerThumbHand = threeFingerHand[THUMB_TIP := \<lparr>px = 0.3, py = 0\<rparr>]"

definition twoFingerThumbHand :: "landmark list" where
  "twoFingerThumbHand =
     restHand[THUMB_TIP := \<lparr>px = 0.3, py = 0\<rparr>,
              INDEX_TIP := \<lparr>px = 0, py = - 0.3\<rparr>,
              MIDDLE_TIP := \<lparr>px = 0, py = - 0.3\<rparr>]"

definition handTick :: "landmark list \<Rightarrow> int \<Rightarrow> Results" where
  "handTick lms t = \<lparr>multiHandLandmarks = Some [lms], clockMotionNow = t, clockNow = t\<rparr>"

definition emptyTick :: Results where
  "emptyTick = \<lparr>multiHandLandmarks = Some [], clockMotionNow = 0, clockNow = 0\<rparr>"

text \<open>A video frame: the hands and faces the trackers report for it, and its clock reading.\<close>

definition videoFrame :: "landmark list list \<Rightarrow> landmark list list option \<Rightarrow> int \<Rightarrow> FrameResults" where
  "videoFrame hands faces t =
     \<lparr>handResults = \<lparr>multiHandLandmarks = Some hands, clockMotionNow = t, clockNow = t\<rparr>,
      multiFaceLandmarks = faces\<rparr>"

text \<open>
  An open hand (all five tips moved out), a hand moved as a whole by \<open>(cx, cy)\<close>, and the
  motion frame \<^verbatim>\<open>onResults\<close> builds from a hand (its time stamp set to 0). \<open>helloBuffer\<close> is a
  buffer of ten such frames: a fist with the thumb out first, a hand at forehead height
  third, an open hand at chest height fifth, and the last one moved to the left.
\<close>

definition openHand :: "landmark list" where
  "openHand =
     restHand[THUMB_TIP := \<lparr>px = 0.3, py = 0\<rparr>,
              INDEX_TIP := \<lparr>px = 0, py = - 0.3\<rparr>,
              MIDDLE_TIP := \<lparr>px = 0, py = - 0.3\<rparr>,
              RING_TIP := \<lparr>px = 0, py = - 0.3\<rparr>,
              PINKY_TIP := \<lparr>px = 0, py = - 0.3\<rparr>]"

definition handAt :: "real \<Rightarrow> real \<Rightarrow> landmark list \<Rightarrow> landmark list" where
  "handAt cx cy lms = map (\<lambda>p. \<lparr>px = px p + cx, py = py p + cy\<rparr>) lms"

definition frameOf :: "landmark list \<Rightarrow> MotionFrame" where
  "frameOf lms =
     \<lparr>timestamp = 0,
      handCenter = getHandCenter lms,
      handShape = (case recognizeASL lms of
                     Inl e \<Rightarrow> ''unknown''
                   | Inr c \<Rightarrow> (case letter c of
                                None \<Rightarrow> ''unknown''
                              | Some l \<Rightarrow> if l = [] then ''unknown'' else l)),
      landmarks = lms\<rparr>"

definition helloBuffer :: "MotionFrame list" where
  "helloBuffer =
     [frameOf (handAt 0.5 0.5 (thumbHand 0.3)),
      frameOf (handAt 0.5 0.5 restHand),
      frameOf (handAt 0.5 0.3 restHand),
      frameOf (handAt 0.5 0.5 restHand),
      frameOf (handAt 0.5 0.55 openHand),
      frameOf (handAt 0.5 0.5 restHand),
      frameOf (handAt 0.5 0.5 restHand),
      frameOf (handAt 0.5 0.5 restHand),
      frameOf (handAt 0.5 0.5 restHand),
      frameOf (handAt 0.4 0.5 restHand)]"

definition noFace :: FaceCue where
  "noFace = \<lparr>chinDetected = False, chinPosition = None\<rparr>"

text \<open>
  A closed fist with the thumb tucked in (finger tips nearer to the wrist than the PIP
  joints, thumb tip at half the wrist distance of the index MCP), and eight synthetic
  frames at forehead height whose centre moves left from 0.6 to 0.5.
\<close>

definition closedFist :: "landmark list" where
  "closedFist =
     restHand[THUMB_TIP := \<lparr>px = 0.1, py = 0\<rparr>,
              INDEX_MCP := \<lparr>px = 0.2, py = 0\<rparr>,
              INDEX_PIP := \<lparr>px = 0.25, py = 0\<rparr>,
              INDEX_TIP := \<lparr>px = 0.1, py = 0\<rparr>,
              MIDDLE_MCP := \<lparr>px = 0.2, py = 0\<rparr>,
              MIDDLE_PIP := \<lparr>px = 0.25, py = 0\<rparr>,
              MIDDLE_TIP := \<lparr>px = 0.1, py = 0\<rparr>,
              13 := \<lparr>px = 0.2, py = 0\<rparr>,
              RING_PIP := \<lparr>px = 0.25, py = 0\<rparr>,
              RING_TIP := \<lparr>px = 0.1, py = 0\<rparr>,
              17 := \<lparr>px = 0.2, py = 0\<rparr>,
              PINKY_PIP := \<lparr>px = 0.25, py = 0\<rparr>,
              PINKY_TIP := \<lparr>px = 0.1, py = 0\<rparr>]"

definition waveFrame :: "nat \<Rightarrow> MotionFrame" where
  "waveFrame i =
     \<lparr>timestamp = int i, handCenter = \<lparr>px = 0.6 - real i / 70, py = 0.3\<rparr>,
      handShape = ''unknown'', landmarks = restHand\<rparr>"

definition thankYouPattern :: MotionPattern where
  "thankYouPattern = \<lparr>ptype = G_thank_you, detected = True, pconfidence = 0.8\<rparr>"

definition pleasePattern :: MotionPattern where
  "pleasePattern = \<lparr>ptype = G_please, detected = True, pconfidence = 0.85\<rparr>"

definition regretPattern :: MotionPattern where
  "regretPattern = \<lparr>ptype = G_regret, detected = True, pconfidence = 0.85\<rparr>"

definition yesPattern :: MotionPattern where
  "yesPattern = \<lparr>ptype = G_yes, detected = True, pconfidence = 0.8\<rparr>"

text \<open>A face result of 468 landmarks, all at the point \<open>(0.5, 0.6)\<close>.\<close>

definition chinFace :: "landmark list" where
  "chinFace = replicate 468 \<lparr>px = 0.5, py = 0.6\<rparr>"

text \<open>Numbered frames to append to the motion buffer.\<close>

definition testFrame :: "nat \<Rightarrow> MotionFrame" where
  "testFrame i = \<lparr>timestamp = int i, handCenter = origin, handShape = ''unknown'', landmarks = restHand\<rparr>"

section \<open>Properties\<close>

subsection \<open>Finger states and concrete hands\<close>

lemma getFingerStates_short:
  "length lms < 21 \<Longrightarrow> getFingerStates lms = Inl TypeError"
  by (auto simp: getFingerStates_def isThumbExtended_def isFingerExtended_def Let_def
      split: sum.splits if_splits)

lemmas letter_defs = letterE_def letterO_def letterT_def letterA_def letterB_def letterC_def letterM_def
      letterS_def letterD_def letterF_def letterU_def letterR_def letterH_def letterG_def letterI_def
      letterJ_def letterL_def letterY_def letterP_def letterQ_def letterK_def letterV_def letterK2_def
      letterV2_def letterN_def letterW_def letterX_def letterZ_def



lemma getFingerStates_long:
  "21 \<le> length l \<Longrightarrow> getFingerStates l =
     Inr \<lparr>thumb = (dist2d (l ! 4) (l ! 0) > dist2d (l ! 5) (l ! 0) * 1.2),
          index = (dist2d (l ! 8) (l ! 0) > dist2d (l ! 6) (l ! 0) * 1.1),
          middle = (dist2d (l ! 12) (l ! 0) > dist2d (l ! 10) (l ! 0) * 1.1),
          ring = (dist2d (l ! 16) (l ! 0) > dist2d (l ! 14) (l ! 0) * 1.1),
          pinky = (dist2d (l ! 20) (l ! 0) > dist2d (l ! 18) (l ! 0) * 1.1)\<rparr>"
proof -
  assume "21 \<le> length l"
  then have "0 < length l" "4 < length l" "5 < length l" "6 < length l" "8 < length l"
    "10 < length l" "12 < length l" "14 < length l" "16 < length l" "18 < length l" "20 < length l"
    by linarith+
  then show ?thesis
    by (simp add: getFingerStates_def isThumbExtended_def isFingerExtended_def Let_def)
qed


lemma firstMatch_Some_mem: "firstMatch bs = Some r \<Longrightarrow> Some r \<in> set bs"
  by (induction bs) (auto split: option.splits)

lemma firstMatch_append:
  "firstMatch (as @ bs) = (case firstMatch as of Some r \<Rightarrow> Some r | None \<Rightarrow> firstMatch bs)"
  by (induction as) (auto split: option.splits)

lemma only_thumb_first:
  assumes "\<not> index f" "\<not> middle f" "\<not> ring f" "\<not> pinky f" "thumb f"
  shows "firstMatch (letterE f l # letterO f l # letterT f l # letterA f l # bs) =
     (if dist2d (l ! THUMB_TIP) (l ! INDEX_TIP) < 0.12 then ret ''O'' 0.85
      else if dist2d (l ! THUMB_TIP) (l ! INDEX_PIP) < 0.12 \<and> dist2d (l ! THUMB_TIP) (l ! MIDDLE_PIP) < 0.12
        then ret ''T'' 0.8
      else ret ''A'' 0.9)"
  using assms
  by (simp add: letterE_def extendedCount_def letterO_def letterT_def letterA_def Let_def)


lemma block_letters1:
  "Some r = letterE f l \<Longrightarrow> letter r = Some ''E''"
  "Some r = letterO f l \<Longrightarrow> letter r = Some ''O''"
  "Some r = letterT f l \<Longrightarrow> letter r = Some ''T''"
  "Some r = letterA f l \<Longrightarrow> letter r = Some ''A''"
  "Some r = letterB f l \<Longrightarrow> letter r = Some ''B''"
  by (simp_all add: letter_defs Let_def split: if_splits)


lemma block_letters2:
  "Some r = letterM f l \<Longrightarrow> letter r = Some ''M''"
  "Some r = letterD f l \<Longrightarrow> letter r = Some ''D''"
  "Some r = letterF f l \<Longrightarrow> letter r = Some ''F''"
  "Some r = letterU f l \<Longrightarrow> letter r = Some ''U''"
  "Some r = letterR f l \<Longrightarrow> letter r = Some ''R''"
  "Some r = letterH f l \<Longrightarrow> letter r = Some ''H''"
  "Some r = letterG f l \<Longrightarrow> letter r = Some ''G''"
  "Some r = letterI f l \<Longrightarrow> letter r = Some ''I''"
  "Some r = letterJ f l \<Longrightarrow> letter r = Some ''J''"
  "Some r = letterL f l \<Longrightarrow> letter r = Some ''L''"
  "Some r = letterY f l \<Longrightarrow> letter r = Some ''Y''"
  "Some r = letterP f l \<Longrightarrow> letter r = Some ''P''"
  "Some r = letterQ f l \<Longrightarrow> letter r = Some ''Q''"
  "Some r = letterK f l \<Longrightarrow> letter r = Some ''K''"
  "Some r = letterV f l \<Longrightarrow> letter r = Some ''V''"
  "Some r = letterK2 f l \<Longrightarrow> letter r = Some ''K''"
  "Some r = letterV2 f l \<Longrightarrow> letter r = Some ''V''"
  "Some r = letterN f l \<Longrightarrow> letter r = Some ''N''"
  "Some r = letterW f l \<Longrightarrow> letter r = Some ''W''"
  "Some r = letterX f l \<Longrightarrow> letter r = Some ''X''"
  "Some r = letterZ f l \<Longrightarrow> letter r = Some ''Z''"
  by (simp_all add: letter_defs Let_def split: if_splits)


lemma ite_ret:
  "Some r = (if P then (if Q then ret L c else None) else None) \<Longrightarrow> letter r = Some L"
  by (simp split: if_splits)

lemma block_letterC: "Some r = letterC f l \<Longrightarrow> letter r = Some ''C''"
  unfolding letterC_def Let_def by (rule ite_ret)

lemmas block_letters = block_letters1 block_letterC block_letters2

lemma other_blocks_not_S:
  assumes "Some r \<in> {letterE f l, letterO f l, letterT f l, letterA f l, letterB f l, letterC f l,
      letterM f l, letterD f l, letterF f l, letterU f l, letterR f l, letterH f l, letterG f l,
      letterI f l, letterJ f l, letterL f l, letterY f l, letterP f l, letterQ f l, letterK f l,
      letterV f l, letterK2 f l, letterV2 f l, letterN f l, letterW f l, letterX f l, letterZ f l}"
  shows "letter r \<noteq> Some ''S''"
  using assms block_letters[of r f l] by auto


lemma firstMatch_dup_ctx:
  "firstMatch (as @ a # b # a # b # bs) = firstMatch (as @ a # b # bs)"
  by (simp add: firstMatch_append split: option.splits)

lemma recognizeASL_Inr:
  "getFingerStates l = Inr f \<Longrightarrow>
   recognizeASL l =
     Inr (case firstMatch
                 [letterE f l, letterO f l, letterT f l,
                  letterA f l, letterB f l, letterC f l,
                  letterM f l, letterS f l, letterD f l,
                  letterF f l, letterU f l, letterR f l,
                  letterH f l, letterG f l, letterI f l,
                  letterJ f l, letterL f l, letterY f l,
                  letterP f l, letterQ f l,
                  letterK f l, letterV f l,
                  letterK2 f l, letterV2 f l,
                  letterN f l, letterW f l, letterX f l,
                  letterZ f l]
               of Some r \<Rightarrow> r | None \<Rightarrow> noMatch)"
  by (simp only: recognizeASL_def sum.case)

lemma ite_cases:
  "(if P then (if Q then ret L c else None) else None) = None
   \<or> (if P then (if Q then ret L c else None) else None) = ret L c"
  by simp

lemma letterC_cases: "letterC f l = None \<or> letterC f l = ret ''C'' 0.8"
  unfolding letterC_def Let_def by (rule ite_cases)

lemma three_finger_chain:
  assumes "getFingerStates l = Inr f" "index f" "middle f" "ring f" "\<not> pinky f"
  shows "recognizeASL l =
           Inr (if letterC f l \<noteq> None then \<lparr>letter = Some ''C'', confidence = 0.8\<rparr>
                else if thumb f then \<lparr>letter = Some ''W'', confidence = 0.9\<rparr>
                else \<lparr>letter = Some ''M'', confidence = 0.75\<rparr>)"
  using assms letterC_cases[of f l]
  by (auto simp: recognizeASL_def letterE_def extendedCount_def letterO_def letterT_def letterA_def
      letterB_def letterM_def letterS_def letterD_def letterF_def letterU_def letterR_def letterH_def
      letterG_def letterI_def letterJ_def letterL_def letterY_def letterP_def letterQ_def letterK_def
      letterV_def letterK2_def letterV2_def letterN_def letterW_def)

lemma origin_coords [simp]: "px origin = 0" "py origin = 0"
  by (simp_all add: origin_def)

lemma dist2d_origin [simp]: "dist2d origin origin = 0"
  by (simp add: dist2d_def origin_def)

lemma dist2d_x_axis [simp]: "0 \<le> d \<Longrightarrow> dist2d \<lparr>px = d, py = 0\<rparr> origin = d"
  by (simp add: dist2d_def origin_def)

lemma dist2d_x_axis' [simp]: "0 \<le> d \<Longrightarrow> dist2d origin \<lparr>px = d, py = 0\<rparr> = d"
  by (simp add: dist2d_def origin_def)

lemma length_restHand [simp]: "length restHand = 21"
  by (simp add: restHand_def)

lemma restHand_nth [simp]: "i < 21 \<Longrightarrow> restHand ! i = origin"
  by (simp add: restHand_def)

lemma fingers_restHand:
  "getFingerStates restHand = Inr \<lparr>thumb = False, index = False, middle = False, ring = False, pinky = False\<rparr>"
  by (simp add: getFingerStates_long)

lemma fingers_thumbHand:
  "0 < d \<Longrightarrow> getFingerStates (thumbHand d) = Inr \<lparr>thumb = True, index = False, middle = False, ring = False, pinky = False\<rparr>"
  by (simp add: getFingerStates_long thumbHand_def)

lemma recognizeASL_restHand: "recognizeASL restHand = Inr noMatch"
  by (simp add: recognizeASL_def fingers_restHand letter_defs extendedCount_def Let_def)


lemma getHandCenter_restHand: "getHandCenter restHand = origin"
  by (simp add: getHandCenter_def restHand_def origin_def eval_nat_numeral)

lemmas detector_defs = detectWaveMotion_def detectThankYouMotion_def detectPleaseMotion_def
  detectHelpMotion_def detectLoveMotion_def detectSorryMotion_def detectYesMotion_def detectNoMotion_def

lemma short_buffer_no_gesture:
  assumes "length (motionFrames s) < 3" "motionNow - lastMotionTime s > 2000"
  shows "gestureCycle motionNow s =
     Inr (s\<lparr>motionLog := motionLog s @ [length (motionFrames s)],
            motionDetectionResult := \<lparr>gesture = None, gconfidence = 0, motionDetected = False\<rparr>\<rparr>)"
  using assms
  by (simp add: gestureCycle_def detector_defs selectGesture_def matched_def)

lemma closed_gate: "motionNow - lastMotionTime s \<le> 2000 \<Longrightarrow> gestureCycle motionNow s = Inr s"
  by (simp add: gestureCycle_def)

lemma dist2d_less_const:
  "0 \<le> c \<Longrightarrow> (dist2d a b < c) = ((px a - px b)\<^sup>2 + (py a - py b)\<^sup>2 < c\<^sup>2)"
  unfolding dist2d_def
  by (metis real_sqrt_less_iff real_sqrt_abs abs_of_nonneg)

lemma dist2d_gt_scaled:
  "0 \<le> k \<Longrightarrow> (dist2d a b > dist2d c d * k) =
     ((px a - px b)\<^sup>2 + (py a - py b)\<^sup>2 > ((px c - px d)\<^sup>2 + (py c - py d)\<^sup>2) * k\<^sup>2)"
proof -
  assume k: "0 \<le> k"
  have "dist2d c d * k = sqrt (((px c - px d)\<^sup>2 + (py c - py d)\<^sup>2) * k\<^sup>2)"
    using k by (simp add: dist2d_def real_sqrt_mult)
  then show ?thesis by (simp add: dist2d_def)
qed

lemma dist2d_y_axis [simp]: "dist2d \<lparr>px = 0, py = d\<rparr> origin = \<bar>d\<bar>"
  by (simp add: dist2d_def origin_def)

lemma dist2d_on_x [simp]: "dist2d \<lparr>px = a, py = 0\<rparr> \<lparr>px = b, py = 0\<rparr> = \<bar>a - b\<bar>"
  by (simp add: dist2d_def)

lemma fingers_tuckedThumbHand:
  "getFingerStates tuckedThumbHand = Inr \<lparr>thumb = True, index = False, middle = False, ring = False, pinky = False\<rparr>"
  by (simp add: getFingerStates_long tuckedThumbHand_def)

lemma fingers_threeFingerHand:
  "getFingerStates threeFingerHand = Inr \<lparr>thumb = False, index = True, middle = True, ring = True, pinky = False\<rparr>"
  by (simp add: getFingerStates_long threeFingerHand_def)

lemma fingers_threeFingerThumbHand:
  "getFingerStates threeFingerThumbHand = Inr \<lparr>thumb = True, index = True, middle = True, ring = True, pinky = False\<rparr>"
  by (simp add: getFingerStates_long threeFingerHand_def threeFingerThumbHand_def)

lemma fingers_twoFingerThumbHand:
  "getFingerStates twoFingerThumbHand = Inr \<lparr>thumb = True, index = True, middle = True, ring = False, pinky = False\<rparr>"
  by (simp add: getFingerStates_long twoFingerThumbHand_def)

lemma letterC_threeFingerHand: "letterC f threeFingerHand = None"
  by (simp add: letterC_def threeFingerHand_def Let_def)

lemma letterC_threeFingerThumbHand: "letterC f threeFingerThumbHand = None"
  by (simp add: letterC_def threeFingerHand_def threeFingerThumbHand_def Let_def)

lemma recognizeASL_twoFingerThumbHand:
  "recognizeASL twoFingerThumbHand = Inr \<lparr>letter = Some ''K'', confidence = 0.85\<rparr>"
  using recognizeASL_Inr[OF fingers_twoFingerThumbHand]
  by (simp add: letter_defs extendedCount_def Let_def twoFingerThumbHand_def)


lemma recognizeASL_thumbHand_far:
  "recognizeASL (thumbHand 0.12) = Inr \<lparr>letter = Some ''A'', confidence = 0.9\<rparr>"
proof -
  have f: "getFingerStates (thumbHand 0.12) =
      Inr \<lparr>thumb = True, index = False, middle = False, ring = False, pinky = False\<rparr>"
    by (rule fingers_thumbHand) simp
  show ?thesis using recognizeASL_Inr[OF f]
    by (simp add: letter_defs extendedCount_def Let_def thumbHand_def)
qed

lemma recognizeASL_thumbHand:
  assumes "0.12 \<le> d"
  shows "recognizeASL (thumbHand d) = Inr \<lparr>letter = Some ''A'', confidence = 0.9\<rparr>"
proof -
  have f: "getFingerStates (thumbHand d) =
      Inr \<lparr>thumb = True, index = False, middle = False, ring = False, pinky = False\<rparr>"
    by (rule fingers_thumbHand) (use assms in simp)
  show ?thesis
    using recognizeASL_Inr[OF f] only_thumb_first[of _ "thumbHand d"] assms
    by (simp add: thumbHand_def)
qed

lemma fingers_farTuckedThumbHand:
  "getFingerStates farTuckedThumbHand = Inr \<lparr>thumb = True, index = False, middle = False, ring = False, pinky = False\<rparr>"
  by (simp add: getFingerStates_long farTuckedThumbHand_def)

subsection \<open>The static pose classifier\<close>

text \<open>
  Claim C2, as amended. For every input of at least 21 landmarks whose finger state has
  only the thumb extended, the classifier returns O (0.85) when the distance from thumb tip
  to index tip is below 0.12; otherwise T (0.8) when the thumb tip is within 0.12 of both
  the index PIP and the middle PIP, whatever the distance to the index tip; otherwise A
  (0.9). An input whose thumb-to-index-tip distance is exactly 0.12 is not O. Among
  only-thumb inputs O is a lower range of that distance: if an input at some distance is O,
  every input at a smaller or equal distance is O too.
\<close>

theorem only_thumb_O_T_A:
  assumes "getFingerStates l =
             Inr \<lparr>thumb = True, index = False, middle = False, ring = False, pinky = False\<rparr>"
  shows "recognizeASL l = Inr
          (if dist2d (l ! THUMB_TIP) (l ! INDEX_TIP) < 0.12
             then \<lparr>letter = Some ''O'', confidence = 0.85\<rparr>
           else if dist2d (l ! THUMB_TIP) (l ! INDEX_PIP) < 0.12
                   \<and> dist2d (l ! THUMB_TIP) (l ! MIDDLE_PIP) < 0.12
             then \<lparr>letter = Some ''T'', confidence = 0.8\<rparr>
           else \<lparr>letter = Some ''A'', confidence = 0.9\<rparr>)
       \<and> (dist2d (l ! THUMB_TIP) (l ! INDEX_TIP) = 0.12 \<longrightarrow>
            recognizeASL l \<noteq> Inr \<lparr>letter = Some ''O'', confidence = 0.85\<rparr>)
       \<and> (\<forall>l'. getFingerStates l' =
                  Inr \<lparr>thumb = True, index = False, middle = False, ring = False, pinky = False\<rparr>
               \<and> dist2d (l ! THUMB_TIP) (l ! INDEX_TIP) \<le> dist2d (l' ! THUMB_TIP) (l' ! INDEX_TIP)
               \<and> recognizeASL l' = Inr \<lparr>letter = Some ''O'', confidence = 0.85\<rparr>
               \<longrightarrow> recognizeASL l = Inr \<lparr>letter = Some ''O'', confidence = 0.85\<rparr>)"
proof -
  have eq: "recognizeASL m = Inr
          (if dist2d (m ! THUMB_TIP) (m ! INDEX_TIP) < 0.12
             then \<lparr>letter = Some ''O'', confidence = 0.85\<rparr>
           else if dist2d (m ! THUMB_TIP) (m ! INDEX_PIP) < 0.12
                   \<and> dist2d (m ! THUMB_TIP) (m ! MIDDLE_PIP) < 0.12
             then \<lparr>letter = Some ''T'', confidence = 0.8\<rparr>
           else \<lparr>letter = Some ''A'', confidence = 0.9\<rparr>)"
    if "getFingerStates m =
             Inr \<lparr>thumb = True, index = False, middle = False, ring = False, pinky = False\<rparr>"
    for m
    using recognizeASL_Inr[OF that] only_thumb_first[of _ m]
    by simp
  have O_iff: "recognizeASL m = Inr \<lparr>letter = Some ''O'', confidence = 0.85\<rparr>
                \<longleftrightarrow> dist2d (m ! THUMB_TIP) (m ! INDEX_TIP) < 0.12"
    if "getFingerStates m =
             Inr \<lparr>thumb = True, index = False, middle = False, ring = False, pinky = False\<rparr>"
    for m
    unfolding eq[OF that] by simp
  show ?thesis
  proof (intro conjI allI impI)
    show "recognizeASL l = Inr
          (if dist2d (l ! THUMB_TIP) (l ! INDEX_TIP) < 0.12
             then \<lparr>letter = Some ''O'', confidence = 0.85\<rparr>
           else if dist2d (l ! THUMB_TIP) (l ! INDEX_PIP) < 0.12
                   \<and> dist2d (l ! THUMB_TIP) (l ! MIDDLE_PIP) < 0.12
             then \<lparr>letter = Some ''T'', confidence = 0.8\<rparr>
           else \<lparr>letter = Some ''A'', confidence = 0.9\<rparr>)"
      by (rule eq[OF assms])
  next
    assume "dist2d (l ! THUMB_TIP) (l ! INDEX_TIP) = 0.12"
    then show "recognizeASL l \<noteq> Inr \<lparr>letter = Some ''O'', confidence = 0.85\<rparr>"
      unfolding O_iff[OF assms] by simp
  next
    fix l'
    assume h: "getFingerStates l' =
                  Inr \<lparr>thumb = True, index = False, middle = False, ring = False, pinky = False\<rparr>
               \<and> dist2d (l ! THUMB_TIP) (l ! INDEX_TIP) \<le> dist2d (l' ! THUMB_TIP) (l' ! INDEX_TIP)
               \<and> recognizeASL l' = Inr \<lparr>letter = Some ''O'', confidence = 0.85\<rparr>"
    then have "dist2d (l' ! THUMB_TIP) (l' ! INDEX_TIP) < 0.12"
      using O_iff[of l'] by blast
    with h have "dist2d (l ! THUMB_TIP) (l ! INDEX_TIP) < 0.12" by linarith
    then show "recognizeASL l = Inr \<lparr>letter = Some ''O'', confidence = 0.85\<rparr>"
      unfolding O_iff[OF assms] .
  qed
qed

theorem only_thumb_O_T_A_witness:
  "recognizeASL (thumbHand 0.1) = Inr \<lparr>letter = Some ''O'', confidence = 0.85\<rparr>
   \<and> dist2d (tuckedThumbHand ! THUMB_TIP) (tuckedThumbHand ! INDEX_TIP) = 0.12
   \<and> recognizeASL tuckedThumbHand = Inr \<lparr>letter = Some ''T'', confidence = 0.8\<rparr>
   \<and> dist2d (thumbHand 0.12 ! THUMB_TIP) (thumbHand 0.12 ! INDEX_TIP) = 0.12
   \<and> recognizeASL (thumbHand 0.12) = Inr \<lparr>letter = Some ''A'', confidence = 0.9\<rparr>"
proof -
  have f1: "getFingerStates (thumbHand 0.1) =
      Inr \<lparr>thumb = True, index = False, middle = False, ring = False, pinky = False\<rparr>"
    by (rule fingers_thumbHand) simp
  have f2: "getFingerStates (thumbHand 0.12) =
      Inr \<lparr>thumb = True, index = False, middle = False, ring = False, pinky = False\<rparr>"
    by (rule fingers_thumbHand) simp
  have a: "recognizeASL (thumbHand 0.1) = Inr \<lparr>letter = Some ''O'', confidence = 0.85\<rparr>"
    using only_thumb_O_T_A[OF f1] by (simp add: thumbHand_def)
  have b: "recognizeASL tuckedThumbHand = Inr \<lparr>letter = Some ''T'', confidence = 0.8\<rparr>"
    using only_thumb_O_T_A[OF fingers_tuckedThumbHand] by (simp add: tuckedThumbHand_def)
  have c: "recognizeASL (thumbHand 0.12) = Inr \<lparr>letter = Some ''A'', confidence = 0.9\<rparr>"
    using only_thumb_O_T_A[OF f2] by (simp add: thumbHand_def)
  have d: "dist2d (tuckedThumbHand ! THUMB_TIP) (tuckedThumbHand ! INDEX_TIP) = 0.12"
    "dist2d (thumbHand 0.12 ! THUMB_TIP) (thumbHand 0.12 ! INDEX_TIP) = 0.12"
    by (simp_all add: tuckedThumbHand_def thumbHand_def)
  from a b c d show ?thesis by blast
qed

text \<open>
  Claim C2 as stated fails: T does not come before A as the distance from thumb tip to
  index tip grows. Of two inputs with only the thumb extended, the one at distance 0.13 is
  A and the one at the larger distance 0.3 is T.
\<close>

theorem tip_distance_order_counterexample:
  "getFingerStates (thumbHand 0.13) =
     Inr \<lparr>thumb = True, index = False, middle = False, ring = False, pinky = False\<rparr>
   \<and> getFingerStates farTuckedThumbHand =
     Inr \<lparr>thumb = True, index = False, middle = False, ring = False, pinky = False\<rparr>
   \<and> dist2d (thumbHand 0.13 ! THUMB_TIP) (thumbHand 0.13 ! INDEX_TIP) = 0.13
   \<and> dist2d (farTuckedThumbHand ! THUMB_TIP) (farTuckedThumbHand ! INDEX_TIP) = 0.3
   \<and> recognizeASL (thumbHand 0.13) = Inr \<lparr>letter = Some ''A'', confidence = 0.9\<rparr>
   \<and> recognizeASL farTuckedThumbHand = Inr \<lparr>letter = Some ''T'', confidence = 0.8\<rparr>"
proof -
  have f: "getFingerStates (thumbHand 0.13) =
      Inr \<lparr>thumb = True, index = False, middle = False, ring = False, pinky = False\<rparr>"
    by (rule fingers_thumbHand) simp
  have a: "recognizeASL (thumbHand 0.13) = Inr \<lparr>letter = Some ''A'', confidence = 0.9\<rparr>"
    using recognizeASL_Inr[OF f] only_thumb_first[of _ "thumbHand 0.13"]
    by (simp add: thumbHand_def)
  have t: "recognizeASL farTuckedThumbHand = Inr \<lparr>letter = Some ''T'', confidence = 0.8\<rparr>"
    using recognizeASL_Inr[OF fingers_farTuckedThumbHand] only_thumb_first[of _ farTuckedThumbHand]
    by (simp add: farTuckedThumbHand_def)
  have d: "dist2d (thumbHand 0.13 ! THUMB_TIP) (thumbHand 0.13 ! INDEX_TIP) = 0.13"
    "dist2d (farTuckedThumbHand ! THUMB_TIP) (farTuckedThumbHand ! INDEX_TIP) = 0.3"
    by (simp_all add: thumbHand_def farTuckedThumbHand_def)
  from f fingers_farTuckedThumbHand a t d show ?thesis by blast
qed


text \<open>
  Claim C8, as amended. For every input whose finger state has index, middle and ring
  extended and the pinky curled, the classifier returns C (0.8) when the earlier
  curved-hand block matches, and otherwise W (0.9) when the thumb is extended and M (0.75)
  when the thumb is curled.
\<close>

theorem three_fingers_W_or_M:
  assumes "getFingerStates l = Inr f" "index f" "middle f" "ring f" "\<not> pinky f"
  shows "recognizeASL l =
           Inr (if letterC f l \<noteq> None then \<lparr>letter = Some ''C'', confidence = 0.8\<rparr>
                else if thumb f then \<lparr>letter = Some ''W'', confidence = 0.9\<rparr>
                else \<lparr>letter = Some ''M'', confidence = 0.75\<rparr>)"
  using assms by (rule three_finger_chain)

theorem three_fingers_W_or_M_witness:
  "getFingerStates threeFingerThumbHand =
     Inr \<lparr>thumb = True, index = True, middle = True, ring = True, pinky = False\<rparr>
   \<and> recognizeASL threeFingerThumbHand = Inr \<lparr>letter = Some ''W'', confidence = 0.9\<rparr>"
  using three_fingers_W_or_M[OF fingers_threeFingerThumbHand]
  by (simp add: fingers_threeFingerThumbHand letterC_threeFingerThumbHand)

text \<open>
  Claim C8 as stated fails: with index, middle and ring extended and pinky and thumb
  curled, the classifier returns M with confidence 0.75, not W.
\<close>

theorem three_fingers_thumb_curled_counterexample:
  "getFingerStates threeFingerHand =
     Inr \<lparr>thumb = False, index = True, middle = True, ring = True, pinky = False\<rparr>
   \<and> recognizeASL threeFingerHand = Inr \<lparr>letter = Some ''M'', confidence = 0.75\<rparr>"
  using three_finger_chain[OF fingers_threeFingerHand]
  by (simp add: fingers_threeFingerHand letterC_threeFingerHand)

text \<open>
  Claim C9. The classifier with the second K block and the second V block removed returns
  the same result (letter and confidence, or the same exception) as the classifier as
  written, on every input.
\<close>

theorem dedup_same: "recognizeASL_dedup l = recognizeASL l"
proof (cases "getFingerStates l")
  case (Inl e)
  then show ?thesis by (simp add: recognizeASL_def recognizeASL_dedup_def)
next
  case (Inr f)
  have k: "letterK2 f l = letterK f l" by (simp add: letterK2_def letterK_def)
  have v: "letterV2 f l = letterV f l" by (simp add: letterV2_def letterV_def)
  define pre where "pre = [letterE f l, letterO f l, letterT f l,
                  letterA f l, letterB f l, letterC f l,
                  letterM f l, letterS f l, letterD f l,
                  letterF f l, letterU f l, letterR f l,
                  letterH f l, letterG f l, letterI f l,
                  letterJ f l, letterL f l, letterY f l,
                  letterP f l, letterQ f l]"
  define post where "post = [letterN f l, letterW f l, letterX f l, letterZ f l]"
  have l1: "[letterE f l, letterO f l, letterT f l,
                  letterA f l, letterB f l, letterC f l,
                  letterM f l, letterS f l, letterD f l,
                  letterF f l, letterU f l, letterR f l,
                  letterH f l, letterG f l, letterI f l,
                  letterJ f l, letterL f l, letterY f l,
                  letterP f l, letterQ f l,
                  letterK f l, letterV f l,
                  letterK2 f l, letterV2 f l,
                  letterN f l, letterW f l, letterX f l,
                  letterZ f l] = pre @ letterK f l # letterV f l # letterK f l # letterV f l # post"
    by (simp add: pre_def post_def k v)
  have l2: "[letterE f l, letterO f l, letterT f l,
                  letterA f l, letterB f l, letterC f l,
                  letterM f l, letterS f l, letterD f l,
                  letterF f l, letterU f l, letterR f l,
                  letterH f l, letterG f l, letterI f l,
                  letterJ f l, letterL f l, letterY f l,
                  letterP f l, letterQ f l,
                  letterK f l, letterV f l,
                  letterN f l, letterW f l, letterX f l,
                  letterZ f l] = pre @ letterK f l # letterV f l # post"
    by (simp add: pre_def post_def)
  have full: "recognizeASL l = Inr (case firstMatch
      (pre @ letterK f l # letterV f l # letterK f l # letterV f l # post)
      of Some r \<Rightarrow> r | None \<Rightarrow> noMatch)"
    by (simp only: recognizeASL_def Inr l1 sum.case)
  have short: "recognizeASL_dedup l = Inr (case firstMatch
      (pre @ letterK f l # letterV f l # post)
      of Some r \<Rightarrow> r | None \<Rightarrow> noMatch)"
    by (simp only: recognizeASL_dedup_def Inr l2 sum.case)
  show ?thesis unfolding full short firstMatch_dup_ctx ..
qed


theorem dedup_same_witness:
  "recognizeASL_dedup twoFingerThumbHand = Inr \<lparr>letter = Some ''K'', confidence = 0.85\<rparr>
   \<and> recognizeASL twoFingerThumbHand = Inr \<lparr>letter = Some ''K'', confidence = 0.85\<rparr>"
  using dedup_same[of twoFingerThumbHand] recognizeASL_twoFingerThumbHand by simp

text \<open>
  Claim C10. The classifier of the gesture-mode file never returns the letter S: whenever
  it returns a result, the letter of the result is not S.
\<close>

theorem never_S:
  "recognizeASL l = Inr r \<Longrightarrow> letter r \<noteq> Some ''S''"
proof -
  assume a: "recognizeASL l = Inr r"
  then obtain f where f: "getFingerStates l = Inr f"
    by (cases "getFingerStates l") (auto simp: recognizeASL_def)
  define bs where "bs = [letterB f l, letterC f l,
                  letterM f l, letterS f l, letterD f l,
                  letterF f l, letterU f l, letterR f l,
                  letterH f l, letterG f l, letterI f l,
                  letterJ f l, letterL f l, letterY f l,
                  letterP f l, letterQ f l,
                  letterK f l, letterV f l,
                  letterK2 f l, letterV2 f l,
                  letterN f l, letterW f l, letterX f l,
                  letterZ f l]"
  have r: "r = (case firstMatch (letterE f l # letterO f l # letterT f l # letterA f l # bs)
             of Some r \<Rightarrow> r | None \<Rightarrow> noMatch)"
    using a unfolding recognizeASL_def f bs_def by simp
  show ?thesis
  proof (cases "\<not> index f \<and> \<not> middle f \<and> \<not> ring f \<and> \<not> pinky f \<and> thumb f")
    case True
    then have "\<not> index f" "\<not> middle f" "\<not> ring f" "\<not> pinky f" "thumb f"
      by simp_all
    from only_thumb_first[OF this, of l bs] show ?thesis unfolding r
      by (simp only: split: if_splits) simp_all
  next
    case False
    then have noS: "letterS f l = None" by (auto simp: letterS_def)
    show ?thesis
    proof (cases "firstMatch (letterE f l # letterO f l # letterT f l # letterA f l # bs)")
      case None
      then show ?thesis unfolding r by (simp add: noMatch_def)
    next
      case (Some r')
      then have r': "r' = r" unfolding r by simp
      from firstMatch_Some_mem[OF Some] noS
      have "Some r' \<in> {letterE f l, letterO f l, letterT f l, letterA f l, letterB f l, letterC f l,
        letterM f l, letterD f l, letterF f l, letterU f l, letterR f l, letterH f l, letterG f l,
        letterI f l, letterJ f l, letterL f l, letterY f l, letterP f l, letterQ f l, letterK f l,
        letterV f l, letterK2 f l, letterV2 f l, letterN f l, letterW f l, letterX f l, letterZ f l}"
        unfolding bs_def by auto
      from other_blocks_not_S[OF this] r' show ?thesis by simp
    qed
  qed
qed



theorem never_S_witness:
  "recognizeASL (thumbHand 0.12) = Inr \<lparr>letter = Some ''A'', confidence = 0.9\<rparr>
   \<and> letter \<lparr>letter = Some ''A'', confidence = 0.9\<rparr> \<noteq> Some ''S''"
  using never_S[OF recognizeASL_thumbHand_far] recognizeASL_thumbHand_far by simp

subsection \<open>Letter stream\<close>

lemma endsWith_suffix: "endsWith prev l \<longleftrightarrow> suffix l prev"
proof
  assume "endsWith prev l"
  then have "prev = take (length prev - length l) prev @ l"
    by (metis append_take_drop_id endsWith_def)
  then show "suffix l prev" by (metis suffixI)
next
  assume "suffix l prev"
  then obtain zs where "prev = zs @ l" by (auto simp: suffix_def)
  then show "endsWith prev l" by (simp add: endsWith_def)
qed

lemma endsWith_append_self: "endsWith (t @ l) l"
  by (simp add: endsWith_def)

lemma endsWith_single_other: "a \<noteq> b \<Longrightarrow> endsWith t [a] \<Longrightarrow> \<not> endsWith t [b]"
  by (auto simp: endsWith_def)

lemma lastN_2_shift:
  "lastN 2 (if length pushed > 4 then tl pushed else pushed) = lastN 2 pushed"
  by (cases pushed) (auto simp: lastN_def drop_Cons' numeral_2_eq_2)

lemma commit_not_qualifying:
  "\<not> (l \<noteq> [] \<and> conf > 0.7 \<and> tnow - lastDetectionTime s > 1200) \<Longrightarrow>
   commitLetter (Some l) conf tnow s = s"
  by (auto simp: commitLetter_def)

lemma commit_stable:
  assumes "l \<noteq> []" "conf > 0.7" "tnow - lastDetectionTime s > 1200"
    "list_all (\<lambda>d. d = l) (lastN 2 (detectionHistory s @ [l]))"
  shows "commitLetter (Some l) conf tnow s =
     s\<lparr>detectedText := (if endsWith (detectedText s) l then detectedText s else detectedText s @ l),
       lastDetectionTime := tnow, detectionHistory := []\<rparr>"
  using assms by (simp add: commitLetter_def Let_def lastN_2_shift)

lemma commit_unstable:
  assumes "l \<noteq> []" "conf > 0.7" "tnow - lastDetectionTime s > 1200"
    "\<not> list_all (\<lambda>d. d = l) (lastN 2 (detectionHistory s @ [l]))"
  shows "commitLetter (Some l) conf tnow s =
     s\<lparr>detectionHistory :=
          (if length (detectionHistory s @ [l]) > 4 then tl (detectionHistory s @ [l])
           else detectionHistory s @ [l])\<rparr>"
  using assms by (simp add: commitLetter_def Let_def lastN_2_shift)


lemma commit_text_or_time_changes:
  assumes "detectedText (commitLetter (Some l) conf tnow s) \<noteq> detectedText s
           \<or> lastDetectionTime (commitLetter (Some l) conf tnow s) \<noteq> lastDetectionTime s"
  shows "l \<noteq> [] \<and> conf > 0.7 \<and> tnow - lastDetectionTime s > 1200
         \<and> list_all (\<lambda>d. d = l) (lastN 2 (detectionHistory s @ [l]))"
proof -
  have q: "l \<noteq> [] \<and> conf > 0.7 \<and> tnow - lastDetectionTime s > 1200"
  proof (rule ccontr)
    assume "\<not> (l \<noteq> [] \<and> conf > 0.7 \<and> tnow - lastDetectionTime s > 1200)"
    then have "commitLetter (Some l) conf tnow s = s" by (rule commit_not_qualifying)
    with assms show False by simp
  qed
  moreover have "list_all (\<lambda>d. d = l) (lastN 2 (detectionHistory s @ [l]))"
  proof (rule ccontr)
    assume "\<not> list_all (\<lambda>d. d = l) (lastN 2 (detectionHistory s @ [l]))"
    with q have "commitLetter (Some l) conf tnow s =
       s\<lparr>detectionHistory :=
          (if length (detectionHistory s @ [l]) > 4 then tl (detectionHistory s @ [l])
           else detectionHistory s @ [l])\<rparr>"
      using commit_unstable by blast
    with assms show False by simp
  qed
  ultimately show ?thesis by blast
qed

lemma commit_idempotent:
  "endsWith (detectedText s) l \<Longrightarrow>
   detectedText (commitLetter (Some l) conf tnow s) = detectedText s"
  by (auto simp: commitLetter_def Let_def)


text \<open>
  The letter block as a function. With \<open>s1\<close> the state after the block has run on letter
  \<open>l\<close>, confidence \<open>conf\<close> and clock reading \<open>tnow\<close>:
  the block changes nothing unless the letter is non-empty, the confidence exceeds 0.7 and
  more than 1200 ms have passed since the last commit;
  the output text or the commit time changes only if, besides, the entries that
  \<^verbatim>\<open>slice(-2)\<close> takes from the history after the push (two, or the pushed letter alone when
  the history was empty) all equal the letter;
  when all that holds, the history is cleared, the commit time is set, and the letter is
  appended unless the text already ends with it; after such a commit, running the block
  again on the same letter never changes the text, running it within 1200 ms on any letter
  changes nothing, and running it more than 1200 ms later on a different one-character
  letter with confidence above 0.7 appends that letter once;
  and a letter that already ends the text never changes the text.
\<close>

theorem letter_commit_gated_idempotent:
  fixes s :: state and l :: string and conf :: real and tnow :: int
  defines "s1 \<equiv> commitLetter (Some l) conf tnow s"
  shows
    "(\<not> (l \<noteq> [] \<and> conf > 0.7 \<and> tnow - lastDetectionTime s > 1200) \<longrightarrow> s1 = s)
   \<and> ((detectedText s1 \<noteq> detectedText s \<or> lastDetectionTime s1 \<noteq> lastDetectionTime s) \<longrightarrow>
        l \<noteq> [] \<and> conf > 0.7 \<and> tnow - lastDetectionTime s > 1200
        \<and> list_all (\<lambda>d. d = l) (lastN 2 (detectionHistory s @ [l])))
   \<and> (l \<noteq> [] \<and> conf > 0.7 \<and> tnow - lastDetectionTime s > 1200
        \<and> list_all (\<lambda>d. d = l) (lastN 2 (detectionHistory s @ [l])) \<longrightarrow>
        s1 = s\<lparr>detectedText := (if endsWith (detectedText s) l then detectedText s
                                  else detectedText s @ l),
                lastDetectionTime := tnow, detectionHistory := []\<rparr>
        \<and> (\<forall>conf2 t2. detectedText (commitLetter (Some l) conf2 t2 s1) = detectedText s1)
        \<and> (\<forall>l2 conf2 t2. t2 - tnow \<le> 1200 \<longrightarrow> commitLetter l2 conf2 t2 s1 = s1)
        \<and> (\<forall>a b conf2 t2. l = [a] \<and> b \<noteq> a \<and> conf2 > 0.7 \<and> t2 - tnow > 1200 \<longrightarrow>
              detectedText (commitLetter (Some [b]) conf2 t2 s1) = detectedText s1 @ [b]))
   \<and> (endsWith (detectedText s) l \<longrightarrow> detectedText s1 = detectedText s)"
proof (intro conjI impI)
  assume "\<not> (l \<noteq> [] \<and> conf > 0.7 \<and> tnow - lastDetectionTime s > 1200)"
  then show "s1 = s" unfolding s1_def by (rule commit_not_qualifying)
next
  assume "detectedText s1 \<noteq> detectedText s \<or> lastDetectionTime s1 \<noteq> lastDetectionTime s"
  then have *: "l \<noteq> [] \<and> conf > 0.7 \<and> tnow - lastDetectionTime s > 1200
         \<and> list_all (\<lambda>d. d = l) (lastN 2 (detectionHistory s @ [l]))"
    unfolding s1_def by (rule commit_text_or_time_changes)
  from * show "l \<noteq> []" by blast
  from * show "conf > 0.7" by blast
  from * show "tnow - lastDetectionTime s > 1200" by blast
  from * show "list_all (\<lambda>d. d = l) (lastN 2 (detectionHistory s @ [l]))" by blast
next
  assume q: "l \<noteq> [] \<and> conf > 0.7 \<and> tnow - lastDetectionTime s > 1200
        \<and> list_all (\<lambda>d. d = l) (lastN 2 (detectionHistory s @ [l]))"
  then have eq: "s1 = s\<lparr>detectedText := (if endsWith (detectedText s) l then detectedText s
                                  else detectedText s @ l),
                lastDetectionTime := tnow, detectionHistory := []\<rparr>"
    unfolding s1_def using commit_stable by blast
  then show "s1 = s\<lparr>detectedText := (if endsWith (detectedText s) l then detectedText s
                                  else detectedText s @ l),
                lastDetectionTime := tnow, detectionHistory := []\<rparr>" .
  have ends: "endsWith (detectedText s1) l"
    unfolding eq by (simp add: endsWith_append_self)
  have time: "lastDetectionTime s1 = tnow" and hist: "detectionHistory s1 = []"
    unfolding eq by simp_all
  show "\<forall>conf2 t2. detectedText (commitLetter (Some l) conf2 t2 s1) = detectedText s1"
    using ends by (simp add: commit_idempotent)
  show "\<forall>l2 conf2 t2. t2 - tnow \<le> 1200 \<longrightarrow> commitLetter l2 conf2 t2 s1 = s1"
    using time by (auto simp: commitLetter_def split: option.splits)
  show "\<forall>a b conf2 t2. l = [a] \<and> b \<noteq> a \<and> conf2 > 0.7 \<and> t2 - tnow > 1200 \<longrightarrow>
              detectedText (commitLetter (Some [b]) conf2 t2 s1) = detectedText s1 @ [b]"
  proof (intro allI impI)
    fix a b :: char and conf2 :: real and t2 :: int
    assume h: "l = [a] \<and> b \<noteq> a \<and> conf2 > 0.7 \<and> t2 - tnow > 1200"
    then have "\<not> endsWith (detectedText s1) [b]"
      using ends endsWith_single_other[of a b "detectedText s1"] by auto
    moreover have "list_all (\<lambda>d. d = [b]) (lastN 2 (detectionHistory s1 @ [[b]]))"
      by (simp add: hist lastN_def)
    ultimately show "detectedText (commitLetter (Some [b]) conf2 t2 s1) = detectedText s1 @ [b]"
      using h time commit_stable[of "[b]" conf2 t2 s1] by simp
  qed
next
  assume "endsWith (detectedText s) l"
  then show "detectedText s1 = detectedText s" unfolding s1_def by (rule commit_idempotent)
qed

theorem letter_commit_witness:
  "detectedText (commitLetter (Some ''A'') 0.9 2000 initialState) = ''A''
   \<and> commitLetter (Some ''A'') 0.9 2500 (commitLetter (Some ''A'') 0.9 2000 initialState)
       = commitLetter (Some ''A'') 0.9 2000 initialState
   \<and> detectedText (commitLetter (Some ''A'') 0.9 3300 (commitLetter (Some ''A'') 0.9 2000 initialState))
       = ''A''
   \<and> detectedText (commitLetter (Some ''B'') 0.9 3300 (commitLetter (Some ''A'') 0.9 2000 initialState))
       = ''AB''"
proof -
  have q: "''A'' \<noteq> [] \<and> (0.9 :: real) > 0.7 \<and> (2000 :: int) - lastDetectionTime initialState > 1200
        \<and> list_all (\<lambda>d. d = ''A'') (lastN 2 (detectionHistory initialState @ [''A'']))"
    by (simp add: initialState_def lastN_def)
  have t: "detectedText (commitLetter (Some ''A'') 0.9 2000 initialState) = ''A''"
    by (simp add: commitLetter_def initialState_def lastN_def endsWith_def)
  from letter_commit_gated_idempotent[of "''A''" "0.9" 2000 initialState] q
  have a: "\<forall>conf2 t2. detectedText (commitLetter (Some ''A'') conf2 t2 (commitLetter (Some ''A'') 0.9 2000 initialState)) = detectedText (commitLetter (Some ''A'') 0.9 2000 initialState)"
    and b: "\<forall>l2 conf2 t2. t2 - 2000 \<le> 1200 \<longrightarrow> commitLetter l2 conf2 t2 (commitLetter (Some ''A'') 0.9 2000 initialState) = commitLetter (Some ''A'') 0.9 2000 initialState"
    and c: "\<forall>a b conf2 t2. ''A'' = [a] \<and> b \<noteq> a \<and> conf2 > 0.7 \<and> t2 - 2000 > 1200 \<longrightarrow>
              detectedText (commitLetter (Some [b]) conf2 t2 (commitLetter (Some ''A'') 0.9 2000 initialState)) = detectedText (commitLetter (Some ''A'') 0.9 2000 initialState) @ [b]"
    by blast+
  from a t have a': "detectedText (commitLetter (Some ''A'') 0.9 3300 (commitLetter (Some ''A'') 0.9 2000 initialState)) = ''A''"
    by simp
  from b have b': "commitLetter (Some ''A'') 0.9 2500 (commitLetter (Some ''A'') 0.9 2000 initialState)
       = commitLetter (Some ''A'') 0.9 2000 initialState" by simp
  from c[rule_format, of "CHR ''A''" "CHR ''B''" "0.9" 3300] t
  have c': "detectedText (commitLetter (Some ''B'') 0.9 3300 (commitLetter (Some ''A'') 0.9 2000 initialState))
       = ''AB''" by simp
  from t a' b' c' show ?thesis by blast
qed

text \<open>
  Claim C4 at its failing input. From the initial state one frame with a hand classified A
  (confidence 0.9) commits the letter at once: the history holds that one entry when
  \<^verbatim>\<open>recentDetections.every\<close> runs, so the test passes without a second, identical
  classification. A frame 1500 ms later classified K (0.85) commits K in the same way.
\<close>

theorem single_detection_commits:
  "recognizeASL (thumbHand 0.3) = Inr \<lparr>letter = Some ''A'', confidence = 0.9\<rparr>
   \<and> detectedText (runFrames Motion initialState [handTick (thumbHand 0.3) 1700000000000]) = ''A''
   \<and> lastDetectionTime (runFrames Motion initialState [handTick (thumbHand 0.3) 1700000000000])
       = 1700000000000
   \<and> recognizeASL twoFingerThumbHand = Inr \<lparr>letter = Some ''K'', confidence = 0.85\<rparr>
   \<and> detectedText (runFrames Motion initialState
        [handTick (thumbHand 0.3) 1700000000000, handTick twoFingerThumbHand 1700000001500])
       = ''AK''"
proof -
  have a: "recognizeASL (thumbHand 0.3) = Inr \<lparr>letter = Some ''A'', confidence = 0.9\<rparr>"
    by (rule recognizeASL_thumbHand) simp
  have r1: "detectedText (runFrames Motion initialState [handTick (thumbHand 0.3) 1700000000000]) = ''A''"
    by (simp add: runFrames_def onResults_def handTick_def initialState_def updatePresence_def
      a updateFaceCue_def pushMotionFrame_def
      short_buffer_no_gesture commitLetter_def stateAfter_def lastN_def endsWith_def)
  have r2: "lastDetectionTime (runFrames Motion initialState [handTick (thumbHand 0.3) 1700000000000])
       = 1700000000000"
    by (simp add: runFrames_def onResults_def handTick_def initialState_def updatePresence_def
      a updateFaceCue_def pushMotionFrame_def
      short_buffer_no_gesture commitLetter_def stateAfter_def lastN_def endsWith_def)
  have r3: "detectedText (runFrames Motion initialState
        [handTick (thumbHand 0.3) 1700000000000, handTick twoFingerThumbHand 1700000001500])
       = ''AK''"
    by (simp add: runFrames_def onResults_def handTick_def initialState_def updatePresence_def
      a recognizeASL_twoFingerThumbHand updateFaceCue_def pushMotionFrame_def
      short_buffer_no_gesture commitLetter_def stateAfter_def lastN_def endsWith_def)
  from a r1 r2 r3 recognizeASL_twoFingerThumbHand show ?thesis by blast
qed


subsection \<open>Motion buffer\<close>

lemma push_is_lastN:
  assumes "length frames \<le> 20"
  shows "pushMotionFrame frames f = lastN 20 (frames @ [f])"
proof (cases "length frames = 20")
  case True
  then have "length (frames @ [f]) - 20 = Suc 0" by simp
  then have "lastN 20 (frames @ [f]) = tl (frames @ [f])"
    unfolding lastN_def by (simp only: drop_Suc drop_0)
  then show ?thesis using True by (simp add: pushMotionFrame_def Let_def)
next
  case False
  then have "length (frames @ [f]) - 20 = 0" using assms by simp
  then have "lastN 20 (frames @ [f]) = frames @ [f]"
    unfolding lastN_def by (simp only: drop_0)
  then show ?thesis using False assms by (simp add: pushMotionFrame_def Let_def)
qed

lemma length_push: "length frames \<le> 20 \<Longrightarrow> length (pushMotionFrame frames f) \<le> 20"
  by (auto simp: pushMotionFrame_def Let_def)

lemma lastN_lastN_append: "lastN n (lastN n xs @ ys) = lastN n (xs @ ys)"
proof (cases "n \<le> length xs")
  case True
  have "lastN n xs @ ys = drop (length xs - n) (xs @ ys)"
    by (simp add: lastN_def)
  moreover have "length (drop (length xs - n) (xs @ ys)) - n + (length xs - n)
                   = length (xs @ ys) - n"
    using True by simp
  ultimately show ?thesis unfolding lastN_def by (simp only: drop_drop)
next
  case False
  then show ?thesis by (simp add: lastN_def)
qed

lemma foldl_push:
  "length frames \<le> 20 \<Longrightarrow> foldl pushMotionFrame frames new = lastN 20 (frames @ new)"
proof (induction new arbitrary: frames)
  case Nil
  then show ?case by (simp add: lastN_def)
next
  case (Cons a new)
  have "foldl pushMotionFrame (pushMotionFrame frames a) new
          = lastN 20 (pushMotionFrame frames a @ new)"
    using Cons.prems by (intro Cons.IH length_push)
  also have "\<dots> = lastN 20 (lastN 20 (frames @ [a]) @ new)"
    using Cons.prems by (simp add: push_is_lastN)
  also have "\<dots> = lastN 20 ((frames @ [a]) @ new)"
    by (rule lastN_lastN_append)
  finally show ?case by simp
qed

lemma commitLetter_other_fields:
  "motionFrames (commitLetter lt conf tnow s) = motionFrames s"
  "faceDetectionState (commitLetter lt conf tnow s) = faceDetectionState s"
  "lastMotionTime (commitLetter lt conf tnow s) = lastMotionTime s"
  "motionDetectionResult (commitLetter lt conf tnow s) = motionDetectionResult s"
  "motionLog (commitLetter lt conf tnow s) = motionLog s"
  by (auto simp: commitLetter_def Let_def split: option.splits)

lemma updatePresence_other_fields:
  "motionFrames (updatePresence h s) = motionFrames s"
  "faceDetectionState (updatePresence h s) = faceDetectionState s"
  "faceResults (updatePresence h s) = faceResults s"
  "lastMotionTime (updatePresence h s) = lastMotionTime s"
  by (auto simp: updatePresence_def Let_def)

lemma gestureCycle_Inl: "gestureCycle t s = Inl (e, s') \<Longrightarrow> s' = s"
  by (auto simp: gestureCycle_def Let_def split: if_splits sum.splits option.splits)

lemma gestureCycle_Inr:
  "gestureCycle t s = Inr s' \<Longrightarrow>
     faceDetectionState s' = faceDetectionState s
     \<and> (motionFrames s' = motionFrames s \<or> motionFrames s' = [])"
  by (auto simp: gestureCycle_def Let_def split: if_splits sum.splits option.splits)


lemma onResults_no_hand:
  assumes "multiHandLandmarks r = None \<or> multiHandLandmarks r = Some []"
  shows "onResults md s r =
           Inr (if \<not> isHandStable (updatePresence False s)
                then (updatePresence False s)\<lparr>detectionResult := noHand\<rparr>
                else updatePresence False s)"
  using assms by (auto simp: onResults_def Let_def)

lemma onResults_hand_frames:
  assumes "multiHandLandmarks r = Some (lms # others)"
  shows "motionFrames (stateAfter (onResults md s r)) = motionFrames s
         \<or> motionFrames (stateAfter (onResults md s r)) = []
         \<or> (\<exists>fr. motionFrames (stateAfter (onResults md s r)) = pushMotionFrame (motionFrames s) fr)"
proof (cases "recognizeASL lms")
  case (Inl e)
  then show ?thesis using assms
    by (simp add: onResults_def Let_def stateAfter_def updatePresence_other_fields)
next
  case c: (Inr c)
  show ?thesis
  proof (cases "updateFaceCue md (faceResults s)")
    case (Inl e)
    then show ?thesis using assms c
      by (simp add: onResults_def Let_def stateAfter_def updatePresence_other_fields)
  next
    case cue: (Inr cue)
    define fr where "fr = \<lparr>timestamp = clockMotionNow r, handCenter = getHandCenter lms,
        handShape = (case letter c of None \<Rightarrow> ''unknown'' | Some l \<Rightarrow> if l = [] then ''unknown'' else l),
        landmarks = lms\<rparr>"
    define s4 where "s4 = (updatePresence True s)\<lparr>handDetectedFrames := handDetectedFrames (updatePresence True s) + 1,
        handLostFrames := 0, faceDetectionState := cue,
        motionFrames := pushMotionFrame (motionFrames s) fr\<rparr>"
    have s4: "motionFrames s4 = pushMotionFrame (motionFrames s) fr"
      by (simp add: s4_def)
    have step: "onResults md s r =
        (case gestureCycle (clockMotionNow r) s4 of Inl thrown \<Rightarrow> Inl thrown
         | Inr s5 \<Rightarrow> Inr (commitLetter (letter c) (confidence c) (clockNow r)
              (s5\<lparr>detectionResult := \<lparr>letter = letter c, confidence = confidence c, handDetected = True\<rparr>\<rparr>)))"
      using assms c cue
      by (simp add: onResults_def Let_def s4_def fr_def updatePresence_other_fields
          split: sum.splits)
    show ?thesis
    proof (cases "gestureCycle (clockMotionNow r) s4")
      case (Inl thrown)
      obtain e s' where t: "thrown = (e, s')" by (cases thrown)
      with Inl have "s' = s4" using gestureCycle_Inl by blast
      then show ?thesis using step Inl t s4 by (auto simp: stateAfter_def)
    next
      case (Inr s5)
      from gestureCycle_Inr[OF Inr] have "motionFrames s5 = motionFrames s4 \<or> motionFrames s5 = []"
        by blast
      then show ?thesis using step Inr s4
        by (auto simp: stateAfter_def commitLetter_other_fields)
    qed
  qed
qed

lemma onResults_buffer_bound:
  assumes "length (motionFrames s) \<le> 20"
  shows "length (motionFrames (stateAfter (onResults md s r))) \<le> 20"
proof (cases "multiHandLandmarks r")
  case None
  then show ?thesis using assms
    by (simp add: onResults_no_hand stateAfter_def updatePresence_other_fields)
next
  case (Some hs)
  show ?thesis
  proof (cases hs)
    case Nil
    then show ?thesis using assms Some
      by (simp add: onResults_no_hand stateAfter_def updatePresence_other_fields)
  next
    case (Cons lms others)
    with Some have "multiHandLandmarks r = Some (lms # others)" by simp
    from onResults_hand_frames[OF this, of md s] show ?thesis
      using assms length_push by auto
  qed
qed

text \<open>
  Claim C3. Appending to a buffer of at most 20 frames leaves at most 20 frames, a call of
  \<^verbatim>\<open>onResults\<close> keeps the buffer at no more than 20 frames, and after any run of calls from
  the initial state the buffer holds at most 20 frames; appending 25 frames, one after the
  other, to a buffer of at most 20 frames leaves exactly 20 frames, and they are the last 20
  of the 25 in the order of appending.
\<close>

theorem motion_buffer_bounded_fifo:
  "(length frames \<le> 20 \<longrightarrow> length (pushMotionFrame frames f) \<le> 20)
   \<and> (length (motionFrames s) \<le> 20 \<longrightarrow>
        length (motionFrames (stateAfter (onResults md s r))) \<le> 20)
   \<and> length (motionFrames (runFrames md initialState rs)) \<le> 20
   \<and> (length frames \<le> 20 \<and> length new = 25 \<longrightarrow>
        length (foldl pushMotionFrame frames new) = 20
        \<and> foldl pushMotionFrame frames new = drop 5 new)"
proof (intro conjI impI)
  assume "length frames \<le> 20"
  then show "length (pushMotionFrame frames f) \<le> 20" by (rule length_push)
next
  assume "length (motionFrames s) \<le> 20"
  then show "length (motionFrames (stateAfter (onResults md s r))) \<le> 20"
    by (rule onResults_buffer_bound)
next
  show "length (motionFrames (runFrames md initialState rs)) \<le> 20"
  proof (induction rs rule: rev_induct)
    case Nil
    then show ?case by (simp add: runFrames_def initialState_def)
  next
    case (snoc r rs)
    then show ?case by (simp add: runFrames_def onResults_buffer_bound)
  qed
next
  assume a: "length frames \<le> 20 \<and> length new = 25"
  then have eq: "foldl pushMotionFrame frames new = drop 5 new"
    by (simp add: foldl_push lastN_def)
  show "foldl pushMotionFrame frames new = drop 5 new" by (rule eq)
  show "length (foldl pushMotionFrame frames new) = 20" using a by (simp add: eq)
qed

theorem motion_buffer_bounded_fifo_witness:
  "length (map testFrame [0 ..< 25]) = 25
   \<and> length (foldl pushMotionFrame [] (map testFrame [0 ..< 25])) = 20
   \<and> foldl pushMotionFrame [] (map testFrame [0 ..< 25]) = map testFrame [5 ..< 25]"
  using motion_buffer_bounded_fifo[of "[]" "testFrame 0" initialState Motion emptyTick "[]"
      "map testFrame [0 ..< 25]"]
  by (simp add: drop_map)


subsection \<open>Face cue\<close>

lemma onResults_hand_face:
  assumes "multiHandLandmarks r = Some (lms # others)" "onResults md s r = Inr s'"
  shows "updateFaceCue md (faceResults s) = Inr (faceDetectionState s')"
proof (cases "recognizeASL lms")
  case (Inl e)
  then show ?thesis using assms by (simp add: onResults_def Let_def)
next
  case c: (Inr c)
  show ?thesis
  proof (cases "updateFaceCue md (faceResults s)")
    case (Inl e)
    then show ?thesis using assms c
      by (simp add: onResults_def Let_def updatePresence_other_fields)
  next
    case cue: (Inr cue)
    define fr where "fr = \<lparr>timestamp = clockMotionNow r, handCenter = getHandCenter lms,
        handShape = (case letter c of None \<Rightarrow> ''unknown'' | Some l \<Rightarrow> if l = [] then ''unknown'' else l),
        landmarks = lms\<rparr>"
    define s4 where "s4 = (updatePresence True s)\<lparr>handDetectedFrames := handDetectedFrames (updatePresence True s) + 1,
        handLostFrames := 0, faceDetectionState := cue,
        motionFrames := pushMotionFrame (motionFrames s) fr\<rparr>"
    have s4: "faceDetectionState s4 = cue"
      by (simp add: s4_def)
    have step: "onResults md s r =
        (case gestureCycle (clockMotionNow r) s4 of Inl thrown \<Rightarrow> Inl thrown
         | Inr s5 \<Rightarrow> Inr (commitLetter (letter c) (confidence c) (clockNow r)
              (s5\<lparr>detectionResult := \<lparr>letter = letter c, confidence = confidence c, handDetected = True\<rparr>\<rparr>)))"
      using assms(1) c cue
      by (simp add: onResults_def Let_def s4_def fr_def updatePresence_other_fields
          split: sum.splits)
    show ?thesis
    proof (cases "gestureCycle (clockMotionNow r) s4")
      case (Inl thrown)
      then show ?thesis using step assms(2) by simp
    next
      case (Inr s5)
      from gestureCycle_Inr[OF Inr] have "faceDetectionState s5 = cue"
        using s4 by simp
      then show ?thesis using step Inr assms(2) cue
        by (auto simp: commitLetter_other_fields)
    qed
  qed
qed

lemma hasHands_cases:
  "hasHands r \<longleftrightarrow> (\<exists>lms others. multiHandLandmarks r = Some (lms # others))"
  "\<not> hasHands r \<longleftrightarrow> multiHandLandmarks r = None \<or> multiHandLandmarks r = Some []"
  by (auto simp: hasHands_def split: option.splits list.splits)

lemma processFrame_hand_cue:
  assumes "hasHands (handResults fr)" "onResults md s (handResults fr) = Inr s1"
  shows "updateFaceCue md (faceResults s) = Inr (faceDetectionState (processFrame md s fr))"
proof -
  from assms(1) obtain lms others where "multiHandLandmarks (handResults fr) = Some (lms # others)"
    using hasHands_cases(1) by blast
  from onResults_hand_face[OF this assms(2)] show ?thesis
    using assms(2) by (simp add: processFrame_def onFaceResults_def)
qed

lemma processFrame_no_hand:
  assumes "\<not> hasHands (handResults fr)"
  shows "faceDetectionState (processFrame md s fr) = faceDetectionState s"
proof -
  from assms have "multiHandLandmarks (handResults fr) = None \<or> multiHandLandmarks (handResults fr) = Some []"
    by (simp add: hasHands_cases(2))
  then show ?thesis
    by (simp add: processFrame_def onResults_no_hand updatePresence_other_fields onFaceResults_def)
qed

lemma processFrame_stores_face:
  assumes "onResults Motion s (handResults fr) = Inr s1"
  shows "faceResults (processFrame Motion s fr) = multiFaceLandmarks fr"
  using assms by (simp add: processFrame_def onFaceResults_def)

lemmas run_defs = processFrame_def videoFrame_def onFaceResults_def onResults_def initialState_def
  updatePresence_def recognizeASL_restHand getHandCenter_restHand updateFaceCue_def
  pushMotionFrame_def short_buffer_no_gesture commitLetter_def noMatch_def chinFace_def

text \<open>
  Claim C6, as amended. The face cue is recomputed only while a frame with a tracked hand
  is processed, and then from the face result stored at that moment: in gesture mode with
  a face in the stored result, it is set to the chin landmark (index 152) of that face; in
  letter mode, or with no face in the stored result, it is cleared (\<open>chinDetected = False\<close>,
  no position). A frame without a tracked hand leaves the cue as it was. In gesture mode the
  face result of a frame is stored after the hand callback of that frame has run, so the
  cue after a frame with a hand is the one computed from the face result of the frame
  before.
\<close>

theorem face_cue_from_stored_face_result:
  "(hasHands (handResults fr) \<and> onResults md s (handResults fr) = Inr s1 \<longrightarrow>
      (md = Motion \<and> (\<exists>face rest. faceResults s = Some (face # rest)) \<longrightarrow>
         (\<exists>face rest. faceResults s = Some (face # rest) \<and>
            faceDetectionState (processFrame md s fr) =
              \<lparr>chinDetected = True,
               chinPosition = Some \<lparr>px = px (face ! 152), py = py (face ! 152)\<rparr>\<rparr>))
      \<and> (md = Static \<or> faceResults s = None \<or> faceResults s = Some [] \<longrightarrow>
           faceDetectionState (processFrame md s fr) = \<lparr>chinDetected = False, chinPosition = None\<rparr>))
   \<and> (\<not> hasHands (handResults fr) \<longrightarrow>
        faceDetectionState (processFrame md s fr) = faceDetectionState s)
   \<and> (onResults Motion s (handResults fr) = Inr s1 \<longrightarrow>
        faceResults (processFrame Motion s fr) = multiFaceLandmarks fr)
   \<and> (onResults Motion s (handResults fr) = Inr s1 \<and> hasHands (handResults fr2)
        \<and> onResults Motion (processFrame Motion s fr) (handResults fr2) = Inr s2 \<longrightarrow>
        updateFaceCue Motion (multiFaceLandmarks fr) =
          Inr (faceDetectionState (processFrame Motion (processFrame Motion s fr) fr2)))"
proof (intro conjI impI)
  assume a: "hasHands (handResults fr) \<and> onResults md s (handResults fr) = Inr s1"
    and b: "md = Motion \<and> (\<exists>face rest. faceResults s = Some (face # rest))"
  then obtain face rest where f: "faceResults s = Some (face # rest)" by blast
  from a have "updateFaceCue md (faceResults s) = Inr (faceDetectionState (processFrame md s fr))"
    using processFrame_hand_cue by blast
  with b f have "faceDetectionState (processFrame md s fr) =
              \<lparr>chinDetected = True,
               chinPosition = Some \<lparr>px = px (face ! 152), py = py (face ! 152)\<rparr>\<rparr>"
    by (auto simp: updateFaceCue_def Let_def split: if_splits)
  with f show "\<exists>face rest. faceResults s = Some (face # rest) \<and>
            faceDetectionState (processFrame md s fr) =
              \<lparr>chinDetected = True,
               chinPosition = Some \<lparr>px = px (face ! 152), py = py (face ! 152)\<rparr>\<rparr>"
    by blast
next
  assume a: "hasHands (handResults fr) \<and> onResults md s (handResults fr) = Inr s1"
    and b: "md = Static \<or> faceResults s = None \<or> faceResults s = Some []"
  from a have "updateFaceCue md (faceResults s) = Inr (faceDetectionState (processFrame md s fr))"
    using processFrame_hand_cue by blast
  with b show "faceDetectionState (processFrame md s fr) = \<lparr>chinDetected = False, chinPosition = None\<rparr>"
    by (auto simp: updateFaceCue_def Let_def split: if_splits option.splits list.splits)
next
  assume "\<not> hasHands (handResults fr)"
  then show "faceDetectionState (processFrame md s fr) = faceDetectionState s"
    by (rule processFrame_no_hand)
next
  assume "onResults Motion s (handResults fr) = Inr s1"
  then show "faceResults (processFrame Motion s fr) = multiFaceLandmarks fr"
    by (rule processFrame_stores_face)
next
  assume a: "onResults Motion s (handResults fr) = Inr s1 \<and> hasHands (handResults fr2)
        \<and> onResults Motion (processFrame Motion s fr) (handResults fr2) = Inr s2"
  then have "faceResults (processFrame Motion s fr) = multiFaceLandmarks fr"
    using processFrame_stores_face by blast
  moreover from a have "updateFaceCue Motion (faceResults (processFrame Motion s fr)) =
      Inr (faceDetectionState (processFrame Motion (processFrame Motion s fr) fr2))"
    using processFrame_hand_cue by blast
  ultimately show "updateFaceCue Motion (multiFaceLandmarks fr) =
          Inr (faceDetectionState (processFrame Motion (processFrame Motion s fr) fr2))"
    by simp
qed

theorem face_cue_from_stored_face_result_witness:
  "hasHands (handResults (videoFrame [restHand] None 1700000000050))
   \<and> multiFaceLandmarks (videoFrame [restHand] (Some [chinFace]) 1700000000000) = Some [chinFace]
   \<and> faceDetectionState (processFrame Motion initialState
        (videoFrame [restHand] (Some [chinFace]) 1700000000000))
      = \<lparr>chinDetected = False, chinPosition = None\<rparr>
   \<and> faceResults (processFrame Motion initialState
        (videoFrame [restHand] (Some [chinFace]) 1700000000000)) = Some [chinFace]
   \<and> faceDetectionState (processFrame Motion (processFrame Motion initialState
        (videoFrame [restHand] (Some [chinFace]) 1700000000000))
        (videoFrame [restHand] None 1700000000050))
      = \<lparr>chinDetected = True, chinPosition = Some \<lparr>px = 0.5, py = 0.6\<rparr>\<rparr>
   \<and> \<not> hasHands (handResults (videoFrame [] None 1700000000100))
   \<and> faceDetectionState (processFrame Motion initialState (videoFrame [] None 1700000000100))
      = faceDetectionState initialState"
proof -
  define f1 where "f1 = videoFrame [restHand] (Some [chinFace]) 1700000000000"
  define f2 where "f2 = videoFrame [restHand] None 1700000000050"
  define f3 where "f3 = videoFrame [] None 1700000000100"
  have "\<exists>s1. onResults Motion initialState (handResults f1) = Inr s1"
    by (simp add: f1_def run_defs)
  then obtain s1 where s1: "onResults Motion initialState (handResults f1) = Inr s1" ..
  have "\<exists>s2. onResults Motion (processFrame Motion initialState f1) (handResults f2) = Inr s2"
    by (simp add: f1_def f2_def run_defs)
  then obtain s2 where s2: "onResults Motion (processFrame Motion initialState f1) (handResults f2) = Inr s2" ..
  have h1: "hasHands (handResults f1)"
    by (simp add: f1_def videoFrame_def hasHands_def)
  have h2: "hasHands (handResults f2)"
    by (simp add: f2_def videoFrame_def hasHands_def)
  have h3: "\<not> hasHands (handResults f3)"
    by (simp add: f3_def videoFrame_def hasHands_def)
  have m: "multiFaceLandmarks f1 = Some [chinFace]"
    by (simp add: f1_def videoFrame_def)
  have n: "faceResults initialState = None"
    by (simp add: initialState_def)
  from face_cue_from_stored_face_result[of f1 Motion initialState s1 f2 s2] s1 s2 h1 h2 n
  have a: "faceDetectionState (processFrame Motion initialState f1)
             = \<lparr>chinDetected = False, chinPosition = None\<rparr>"
    and b: "faceResults (processFrame Motion initialState f1) = multiFaceLandmarks f1"
    and c: "updateFaceCue Motion (multiFaceLandmarks f1) =
          Inr (faceDetectionState (processFrame Motion (processFrame Motion initialState f1) f2))"
    by blast+
  from c have c': "faceDetectionState (processFrame Motion (processFrame Motion initialState f1) f2)
      = \<lparr>chinDetected = True, chinPosition = Some \<lparr>px = 0.5, py = 0.6\<rparr>\<rparr>"
    by (simp add: m updateFaceCue_def chinFace_def)
  from face_cue_from_stored_face_result[of f3 Motion initialState s1 f2 s2] h3
  have d: "faceDetectionState (processFrame Motion initialState f3) = faceDetectionState initialState"
    by blast
  from h2 m a b c' h3 d show ?thesis unfolding f1_def f2_def f3_def by simp
qed

text \<open>
  Claim C6 as stated fails. From the initial state in gesture mode: a frame with a hand and
  a tracked face leaves the cue cleared; the next frame, with a hand and no face, sets
  \<open>chinDetected\<close> with the chin position of the frame before; and a third frame, with no
  hand and no face, leaves that cue in place.
\<close>

theorem lagging_chin_counterexample:
  "multiFaceLandmarks (videoFrame [restHand] (Some [chinFace]) 1700000000000) = Some [chinFace]
   \<and> faceDetectionState (processFrame Motion initialState
        (videoFrame [restHand] (Some [chinFace]) 1700000000000))
      = \<lparr>chinDetected = False, chinPosition = None\<rparr>
   \<and> multiFaceLandmarks (videoFrame [restHand] None 1700000000050) = None
   \<and> faceDetectionState (processFrame Motion (processFrame Motion initialState
        (videoFrame [restHand] (Some [chinFace]) 1700000000000))
        (videoFrame [restHand] None 1700000000050))
      = \<lparr>chinDetected = True, chinPosition = Some \<lparr>px = 0.5, py = 0.6\<rparr>\<rparr>
   \<and> multiFaceLandmarks (videoFrame [] None 1700000000100) = None
   \<and> faceDetectionState (processFrame Motion (processFrame Motion (processFrame Motion initialState
        (videoFrame [restHand] (Some [chinFace]) 1700000000000))
        (videoFrame [restHand] None 1700000000050))
        (videoFrame [] None 1700000000100))
      = \<lparr>chinDetected = True, chinPosition = Some \<lparr>px = 0.5, py = 0.6\<rparr>\<rparr>"
  by (simp add: run_defs)


subsection \<open>Moved hands and a ten-frame buffer\<close>

lemma length_handAt [simp]: "length (handAt cx cy l) = length l"
  by (simp add: handAt_def)

lemma nth_handAt [simp]:
  "i < length l \<Longrightarrow> handAt cx cy l ! i = \<lparr>px = px (l ! i) + cx, py = py (l ! i) + cy\<rparr>"
  by (simp add: handAt_def)

lemma dist2d_moved [simp]:
  "dist2d \<lparr>px = px a + cx, py = py a + cy\<rparr> \<lparr>px = px b + cx, py = py b + cy\<rparr> = dist2d a b"
  by (simp add: dist2d_def)

lemma getFingerStates_handAt:
  assumes "21 \<le> length l"
  shows "getFingerStates (handAt cx cy l) = getFingerStates l"
proof -
  from assms have "l \<noteq> []" by auto
  with assms show ?thesis by (simp add: getFingerStates_long)
qed

lemma foldl_add_sum:
  "foldl (\<lambda>acc p. acc + f p) a l = a + sum_list (map f l)" for a :: real
  by (induction l arbitrary: a) simp_all

lemma getHandCenter_handAt:
  assumes "l \<noteq> []"
  shows "getHandCenter (handAt cx cy l) =
           \<lparr>px = px (getHandCenter l) + cx, py = py (getHandCenter l) + cy\<rparr>"
proof -
  have n: "real (length l) \<noteq> 0" using assms by simp
  have "sum_list (map (\<lambda>p. px p + cx) l) = sum_list (map px l) + real (length l) * cx"
    by (induction l) (simp_all add: algebra_simps)
  moreover have "sum_list (map (\<lambda>p. py p + cy) l) = sum_list (map py l) + real (length l) * cy"
    by (induction l) (simp_all add: algebra_simps)
  ultimately show ?thesis using n
    by (simp add: getHandCenter_def handAt_def foldl_add_sum comp_def add_divide_distrib)
qed

lemma getHandCenter_thumbHand: "getHandCenter (thumbHand 0.3) = \<lparr>px = 1 / 70, py = 0\<rparr>"
  by (simp add: getHandCenter_def thumbHand_def restHand_def origin_def eval_nat_numeral)

lemma getHandCenter_openHand: "getHandCenter openHand = \<lparr>px = 1 / 70, py = - (2 / 35)\<rparr>"
  by (simp add: getHandCenter_def openHand_def restHand_def origin_def eval_nat_numeral)

lemma fingers_openHand:
  "getFingerStates openHand = Inr \<lparr>thumb = True, index = True, middle = True, ring = True, pinky = True\<rparr>"
  by (simp add: getFingerStates_long openHand_def)


lemma frameOf_fields [simp]:
  "handCenter (frameOf l) = getHandCenter l" "landmarks (frameOf l) = l"
  by (simp_all add: frameOf_def)

lemma hands_nonempty [simp]: "restHand \<noteq> []" "thumbHand d \<noteq> []" "openHand \<noteq> []"
  by (auto simp: restHand_def thumbHand_def openHand_def)

lemma hands_length [simp]: "length (thumbHand d) = 21" "length openHand = 21"
  by (simp_all add: thumbHand_def openHand_def)

lemma centers [simp]:
  "getHandCenter (handAt cx cy restHand) = \<lparr>px = cx, py = cy\<rparr>"
  "getHandCenter (handAt cx cy (thumbHand 0.3)) = \<lparr>px = 1 / 70 + cx, py = cy\<rparr>"
  "getHandCenter (handAt cx cy openHand) = \<lparr>px = 1 / 70 + cx, py = - (2 / 35) + cy\<rparr>"
  by (simp_all add: getHandCenter_handAt getHandCenter_restHand getHandCenter_thumbHand
      getHandCenter_openHand)

lemma moved_fingers [simp]:
  "getFingerStates (handAt cx cy restHand) =
     Inr \<lparr>thumb = False, index = False, middle = False, ring = False, pinky = False\<rparr>"
  "getFingerStates (handAt cx cy (thumbHand 0.3)) =
     Inr \<lparr>thumb = True, index = False, middle = False, ring = False, pinky = False\<rparr>"
  "getFingerStates (handAt cx cy openHand) =
     Inr \<lparr>thumb = True, index = True, middle = True, ring = True, pinky = True\<rparr>"
  by (simp_all add: getFingerStates_handAt fingers_restHand fingers_thumbHand fingers_openHand)

lemma wave_helloBuffer:
  "detectWaveMotion helloBuffer = Some \<lparr>ptype = G_hello, detected = True, pconfidence = 0.8\<rparr>"
  by (simp add: detectWaveMotion_def helloBuffer_def lastN_def Let_def)

lemma thankYou_helloBuffer:
  "detectThankYouMotion noFace helloBuffer =
     Inr (Some \<lparr>ptype = G_thank_you, detected = True, pconfidence = 0.8\<rparr>)"
  by (simp add: detectThankYouMotion_def helloBuffer_def lastN_def Let_def isFlatHandOf_def noFace_def)

lemma please_helloBuffer: "detectPleaseMotion helloBuffer = Inr None"
  by (simp add: detectPleaseMotion_def helloBuffer_def lastN_def Let_def isFlatHandOf_def
      split: prod.splits)

lemma help_helloBuffer: "detectHelpMotion helloBuffer = Inr None"
  by (simp add: detectHelpMotion_def helloBuffer_def lastN_def Let_def isFlatHandOf_def)

lemma regret_helloBuffer: "detectSorryMotion helloBuffer = Inr None"
  by (simp add: detectSorryMotion_def helloBuffer_def lastN_def Let_def isFistOf_def
      split: prod.splits)

lemma no_helloBuffer: "detectNoMotion helloBuffer = Inr None"
  by (simp add: detectNoMotion_def helloBuffer_def lastN_def Let_def)


lemma upt_1_10: "[1 ..< 10] = [1, 2, 3, 4, 5, 6, 7, 8, 9 :: nat]"
  by (simp add: upt_rec)

lemma yes_helloBuffer:
  "detectYesMotion helloBuffer = Inr (Some \<lparr>ptype = G_yes, detected = True, pconfidence = 0.8\<rparr>)"
  by (simp add: detectYesMotion_def helloBuffer_def lastN_def Let_def isFistOf_def upt_1_10)

lemma length_helloBuffer: "length helloBuffer = 10"
  by (simp add: helloBuffer_def)

lemma hello_gestureCycle:
  "gestureCycle 3000 (initialState\<lparr>motionFrames := helloBuffer, faceDetectionState := noFace\<rparr>) =
     Inr (initialState
            \<lparr>motionFrames := [], faceDetectionState := noFace, lastMotionTime := 3000,
             motionDetectionResult := \<lparr>gesture = Some ''HELLO'', gconfidence = 0.8, motionDetected = True\<rparr>,
             motionLog := [10]\<rparr>)"
  by (simp add: gestureCycle_def initialState_def wave_helloBuffer thankYou_helloBuffer
      please_helloBuffer help_helloBuffer regret_helloBuffer yes_helloBuffer no_helloBuffer
      selectGesture_def matched_def confOf_def length_helloBuffer)


subsection \<open>Gesture arbitration\<close>

lemma selectGesture_first_matched:
  "selectGesture w t p h l s y n =
     (case find (\<lambda>(pat, name). matched pat)
             [(w, ''HELLO''), (t, ''THANK YOU''), (p, ''PLEASE''), (h, ''HELP''),
              (l, ''LOVE''), (s, ''SORRY''), (y, ''YES''), (n, ''NO'')] of
        None \<Rightarrow> None
      | Some (pat, name) \<Rightarrow> Some (name, confOf pat))"
  by (simp add: selectGesture_def)

lemma gestureCycle_selects:
  assumes "t - lastMotionTime s > 2000"
    "detectThankYouMotion (faceDetectionState s) (motionFrames s) = Inr ty"
    "detectPleaseMotion (motionFrames s) = Inr pl"
    "detectHelpMotion (motionFrames s) = Inr he"
    "detectSorryMotion (motionFrames s) = Inr so"
    "detectYesMotion (motionFrames s) = Inr ye"
    "detectNoMotion (motionFrames s) = Inr no"
  shows "\<exists>s'. gestureCycle t s = Inr s' \<and>
           motionDetectionResult s' =
             (case selectGesture (detectWaveMotion (motionFrames s)) ty pl he
                     (detectLoveMotion (motionFrames s)) so ye no of
                Some (name, conf) \<Rightarrow> \<lparr>gesture = Some name, gconfidence = conf, motionDetected = True\<rparr>
              | None \<Rightarrow> \<lparr>gesture = None, gconfidence = 0, motionDetected = False\<rparr>)"
  using assms by (auto simp: gestureCycle_def Let_def split: option.splits)

text \<open>
  Claim C1, as amended. The chain over the eight detector results picks at most one
  gesture: the first that matched in the order hello, thank-you, please, help, love, sorry,
  yes, no. When please and sorry both matched, the gesture is never SORRY: it is HELLO if
  hello matched, else THANK YOU if thank-you matched, else PLEASE. When thank-you and yes
  both matched, the gesture is never YES: it is HELLO if hello matched, else THANK YOU.
  A detection cycle (the gate open and no detector throwing) sets the gesture result once,
  to the gesture the chain picks from the detectors' results on the buffer, or to no
  gesture.
\<close>

theorem gesture_priority_arbitration:
  "selectGesture w t p h l s y n =
     (case find (\<lambda>(pat, name). matched pat)
             [(w, ''HELLO''), (t, ''THANK YOU''), (p, ''PLEASE''), (h, ''HELP''),
              (l, ''LOVE''), (s, ''SORRY''), (y, ''YES''), (n, ''NO'')] of
        None \<Rightarrow> None
      | Some (pat, name) \<Rightarrow> Some (name, confOf pat))
   \<and> (matched p \<and> matched s \<longrightarrow>
        selectGesture w t p h l s y n =
          (if matched w then Some (''HELLO'', confOf w)
           else if matched t then Some (''THANK YOU'', confOf t)
           else Some (''PLEASE'', confOf p))
        \<and> map_option fst (selectGesture w t p h l s y n) \<noteq> Some ''SORRY'')
   \<and> (matched t \<and> matched y \<longrightarrow>
        selectGesture w t p h l s y n =
          (if matched w then Some (''HELLO'', confOf w) else Some (''THANK YOU'', confOf t))
        \<and> map_option fst (selectGesture w t p h l s y n) \<noteq> Some ''YES'')
   \<and> (tm - lastMotionTime st > 2000
        \<and> detectThankYouMotion (faceDetectionState st) (motionFrames st) = Inr t
        \<and> detectPleaseMotion (motionFrames st) = Inr p
        \<and> detectHelpMotion (motionFrames st) = Inr h
        \<and> detectSorryMotion (motionFrames st) = Inr s
        \<and> detectYesMotion (motionFrames st) = Inr y
        \<and> detectNoMotion (motionFrames st) = Inr n \<longrightarrow>
        (\<exists>st'. gestureCycle tm st = Inr st' \<and>
           motionDetectionResult st' =
             (case selectGesture (detectWaveMotion (motionFrames st)) t p h
                     (detectLoveMotion (motionFrames st)) s y n of
                Some (name, conf) \<Rightarrow> \<lparr>gesture = Some name, gconfidence = conf, motionDetected = True\<rparr>
              | None \<Rightarrow> \<lparr>gesture = None, gconfidence = 0, motionDetected = False\<rparr>)))"
proof (intro conjI impI)
  show "selectGesture w t p h l s y n =
     (case find (\<lambda>(pat, name). matched pat)
             [(w, ''HELLO''), (t, ''THANK YOU''), (p, ''PLEASE''), (h, ''HELP''),
              (l, ''LOVE''), (s, ''SORRY''), (y, ''YES''), (n, ''NO'')] of
        None \<Rightarrow> None
      | Some (pat, name) \<Rightarrow> Some (name, confOf pat))"
    by (rule selectGesture_first_matched)
next
  assume a: "matched p \<and> matched s"
  then show "selectGesture w t p h l s y n =
          (if matched w then Some (''HELLO'', confOf w)
           else if matched t then Some (''THANK YOU'', confOf t)
           else Some (''PLEASE'', confOf p))"
    by (simp add: selectGesture_def)
  from a show "map_option fst (selectGesture w t p h l s y n) \<noteq> Some ''SORRY''"
    by (simp add: selectGesture_def)
next
  assume a: "matched t \<and> matched y"
  then show "selectGesture w t p h l s y n =
          (if matched w then Some (''HELLO'', confOf w) else Some (''THANK YOU'', confOf t))"
    by (simp add: selectGesture_def)
  from a show "map_option fst (selectGesture w t p h l s y n) \<noteq> Some ''YES''"
    by (simp add: selectGesture_def)
next
  assume "tm - lastMotionTime st > 2000
        \<and> detectThankYouMotion (faceDetectionState st) (motionFrames st) = Inr t
        \<and> detectPleaseMotion (motionFrames st) = Inr p
        \<and> detectHelpMotion (motionFrames st) = Inr h
        \<and> detectSorryMotion (motionFrames st) = Inr s
        \<and> detectYesMotion (motionFrames st) = Inr y
        \<and> detectNoMotion (motionFrames st) = Inr n"
  then show "\<exists>st'. gestureCycle tm st = Inr st' \<and>
           motionDetectionResult st' =
             (case selectGesture (detectWaveMotion (motionFrames st)) t p h
                     (detectLoveMotion (motionFrames st)) s y n of
                Some (name, conf) \<Rightarrow> \<lparr>gesture = Some name, gconfidence = conf, motionDetected = True\<rparr>
              | None \<Rightarrow> \<lparr>gesture = None, gconfidence = 0, motionDetected = False\<rparr>)"
    using gestureCycle_selects by blast
qed

theorem gesture_priority_arbitration_witness:
  "selectGesture None None (Some pleasePattern) None None (Some regretPattern) None None
     = Some (''PLEASE'', 0.85)
   \<and> selectGesture None (Some thankYouPattern) None None None None (Some yesPattern) None
     = Some (''THANK YOU'', 0.8)
   \<and> (\<exists>st'. gestureCycle 3000 (initialState\<lparr>motionFrames := helloBuffer, faceDetectionState := noFace\<rparr>)
               = Inr st'
            \<and> motionDetectionResult st' =
                \<lparr>gesture = Some ''HELLO'', gconfidence = 0.8, motionDetected = True\<rparr>)"
proof -
  have a: "selectGesture None None (Some pleasePattern) None None (Some regretPattern) None None
     = Some (''PLEASE'', 0.85)"
    using gesture_priority_arbitration[of None None "Some pleasePattern" None None
        "Some regretPattern" None None]
    by (simp add: matched_def confOf_def pleasePattern_def regretPattern_def)
  have b: "selectGesture None (Some thankYouPattern) None None None None (Some yesPattern) None
     = Some (''THANK YOU'', 0.8)"
    using gesture_priority_arbitration[of None "Some thankYouPattern" None None None None
        "Some yesPattern" None]
    by (simp add: matched_def confOf_def thankYouPattern_def yesPattern_def)
  have c: "\<exists>st'. gestureCycle 3000 (initialState\<lparr>motionFrames := helloBuffer, faceDetectionState := noFace\<rparr>)
               = Inr st'
            \<and> motionDetectionResult st' =
                \<lparr>gesture = Some ''HELLO'', gconfidence = 0.8, motionDetected = True\<rparr>"
    using gesture_priority_arbitration[of _ "Some \<lparr>ptype = G_thank_you, detected = True, pconfidence = 0.8\<rparr>"
        None None _ None "Some \<lparr>ptype = G_yes, detected = True, pconfidence = 0.8\<rparr>" None
        3000 "initialState\<lparr>motionFrames := helloBuffer, faceDetectionState := noFace\<rparr>"]
    by (simp add: initialState_def wave_helloBuffer thankYou_helloBuffer please_helloBuffer
        help_helloBuffer regret_helloBuffer yes_helloBuffer no_helloBuffer
        selectGesture_def matched_def confOf_def)
  from a b c show ?thesis by blast
qed

text \<open>
  Claim C1 as stated fails: on \<open>helloBuffer\<close> the hello, thank-you and yes detectors all
  match, and the cycle emits HELLO, not THANK YOU.
\<close>

theorem hello_outranks_counterexample:
  "detectWaveMotion helloBuffer = Some \<lparr>ptype = G_hello, detected = True, pconfidence = 0.8\<rparr>
   \<and> detectThankYouMotion noFace helloBuffer =
       Inr (Some \<lparr>ptype = G_thank_you, detected = True, pconfidence = 0.8\<rparr>)
   \<and> detectYesMotion helloBuffer = Inr (Some \<lparr>ptype = G_yes, detected = True, pconfidence = 0.8\<rparr>)
   \<and> gesture (motionDetectionResult (stateAfter
         (gestureCycle 3000 (initialState\<lparr>motionFrames := helloBuffer, faceDetectionState := noFace\<rparr>))))
       = Some ''HELLO''"
  by (simp add: wave_helloBuffer thankYou_helloBuffer yes_helloBuffer hello_gestureCycle stateAfter_def)


subsection \<open>Hand presence and the gesture cadence\<close>

lemma commitLetter_presence:
  "handDetectedFrames (commitLetter lt conf tnow s) = handDetectedFrames s"
  "handLostFrames (commitLetter lt conf tnow s) = handLostFrames s"
  "isHandStable (commitLetter lt conf tnow s) = isHandStable s"
  by (auto simp: commitLetter_def Let_def split: option.splits)

lemma gestureCycle_presence:
  "handDetectedFrames (stateAfter (gestureCycle t s)) = handDetectedFrames s"
  "handLostFrames (stateAfter (gestureCycle t s)) = handLostFrames s"
  "isHandStable (stateAfter (gestureCycle t s)) = isHandStable s"
  by (auto simp: gestureCycle_def stateAfter_def Let_def split: sum.splits option.splits)

lemma onResultsStatic_presence:
  "handDetectedFrames (stateAfter (onResultsStatic recognize s r))
     = handDetectedFrames (updatePresence (hasHands r) s)"
  "handLostFrames (stateAfter (onResultsStatic recognize s r))
     = handLostFrames (updatePresence (hasHands r) s)"
  "isHandStable (stateAfter (onResultsStatic recognize s r))
     = isHandStable (updatePresence (hasHands r) s)"
  by (auto simp: onResultsStatic_def hasHands_def stateAfter_def Let_def commitLetter_presence
      split: option.splits list.splits sum.splits)

lemma onResults_presence:
  "handDetectedFrames (stateAfter (onResults md s r))
     = (if hasHands r then handDetectedFrames (updatePresence True s) + 1
        else handDetectedFrames (updatePresence False s))"
  "handLostFrames (stateAfter (onResults md s r))
     = handLostFrames (updatePresence (hasHands r) s)"
  "isHandStable (stateAfter (onResults md s r))
     = isHandStable (updatePresence (hasHands r) s)"
proof -
  have hand: "handDetectedFrames (stateAfter (onResults md s r)) = handDetectedFrames (updatePresence True s) + 1
      \<and> handLostFrames (stateAfter (onResults md s r)) = 0
      \<and> isHandStable (stateAfter (onResults md s r)) = isHandStable (updatePresence True s)"
    if h: "multiHandLandmarks r = Some (lms # others)" for lms others
  proof (cases "recognizeASL lms")
    case (Inl e)
    then show ?thesis using h by (simp add: onResults_def Let_def stateAfter_def)
  next
    case c: (Inr c)
    show ?thesis
    proof (cases "updateFaceCue md (faceResults s)")
      case (Inl e)
      then show ?thesis using h c
        by (simp add: onResults_def Let_def stateAfter_def updatePresence_other_fields)
    next
      case cue: (Inr cue)
      define fr where "fr = \<lparr>timestamp = clockMotionNow r, handCenter = getHandCenter lms,
          handShape = (case letter c of None \<Rightarrow> ''unknown'' | Some l \<Rightarrow> if l = [] then ''unknown'' else l),
          landmarks = lms\<rparr>"
      define s4 where "s4 = (updatePresence True s)\<lparr>handDetectedFrames := handDetectedFrames (updatePresence True s) + 1,
          handLostFrames := 0, faceDetectionState := cue,
          motionFrames := pushMotionFrame (motionFrames s) fr\<rparr>"
      have step: "onResults md s r =
          (case gestureCycle (clockMotionNow r) s4 of Inl thrown \<Rightarrow> Inl thrown
           | Inr s5 \<Rightarrow> Inr (commitLetter (letter c) (confidence c) (clockNow r)
                (s5\<lparr>detectionResult := \<lparr>letter = letter c, confidence = confidence c, handDetected = True\<rparr>\<rparr>)))"
        using h c cue
        by (simp add: onResults_def Let_def s4_def fr_def updatePresence_other_fields
            split: sum.splits)
      have "handDetectedFrames (stateAfter (onResults md s r)) = handDetectedFrames s4
          \<and> handLostFrames (stateAfter (onResults md s r)) = handLostFrames s4
          \<and> isHandStable (stateAfter (onResults md s r)) = isHandStable s4"
        using gestureCycle_presence[of "clockMotionNow r" s4] unfolding step
        by (auto simp: stateAfter_def commitLetter_presence split: sum.splits)
      then show ?thesis by (simp add: s4_def)
    qed
  qed
  have lost0: "handLostFrames (updatePresence True s) = 0"
    by (simp add: updatePresence_def Let_def)
  show "handDetectedFrames (stateAfter (onResults md s r))
     = (if hasHands r then handDetectedFrames (updatePresence True s) + 1
        else handDetectedFrames (updatePresence False s))"
    using hand by (auto simp: hasHands_def onResults_no_hand stateAfter_def
        split: option.splits list.splits)
  show "handLostFrames (stateAfter (onResults md s r))
     = handLostFrames (updatePresence (hasHands r) s)"
    using hand lost0 by (auto simp: hasHands_def onResults_no_hand stateAfter_def
        split: option.splits list.splits)
  show "isHandStable (stateAfter (onResults md s r))
     = isHandStable (updatePresence (hasHands r) s)"
    using hand by (auto simp: hasHands_def onResults_no_hand stateAfter_def
        split: option.splits list.splits)
qed


lemma runFramesStatic_snoc:
  "runFramesStatic recognize s (rs @ [r])
     = stateAfter (onResultsStatic recognize (runFramesStatic recognize s rs) r)"
  by (simp add: runFramesStatic_def)

lemma runFrames_snoc:
  "runFrames md s (rs @ [r]) = stateAfter (onResults md (runFrames md s rs) r)"
  by (simp add: runFrames_def)

lemma static_hand_run:
  assumes "\<not> isHandStable s" "list_all hasHands rs"
  shows "handDetectedFrames (runFramesStatic recognize s rs) = handDetectedFrames s + length rs
         \<and> (isHandStable (runFramesStatic recognize s rs)
              \<longleftrightarrow> rs \<noteq> [] \<and> 3 \<le> handDetectedFrames s + length rs)"
  using assms(2)
proof (induction rs rule: rev_induct)
  case Nil
  then show ?case using assms(1) by (simp add: runFramesStatic_def)
next
  case (snoc r rs)
  then have h: "hasHands r" and ih: "handDetectedFrames (runFramesStatic recognize s rs) = handDetectedFrames s + length rs"
    "isHandStable (runFramesStatic recognize s rs)
              \<longleftrightarrow> rs \<noteq> [] \<and> 3 \<le> handDetectedFrames s + length rs"
    by auto
  show ?case
    unfolding runFramesStatic_snoc onResultsStatic_presence
    using h ih by (auto simp: updatePresence_def Let_def)
qed

lemma motion_hand_run:
  assumes "\<not> isHandStable s" "list_all hasHands rs"
  shows "handDetectedFrames (runFrames md s rs) = handDetectedFrames s + 2 * length rs
         \<and> (isHandStable (runFrames md s rs)
              \<longleftrightarrow> rs \<noteq> [] \<and> 4 \<le> handDetectedFrames s + 2 * length rs)"
  using assms(2)
proof (induction rs rule: rev_induct)
  case Nil
  then show ?case using assms(1) by (simp add: runFrames_def)
next
  case (snoc r rs)
  then have h: "hasHands r" and ih: "handDetectedFrames (runFrames md s rs) = handDetectedFrames s + 2 * length rs"
    "isHandStable (runFrames md s rs)
              \<longleftrightarrow> rs \<noteq> [] \<and> 4 \<le> handDetectedFrames s + 2 * length rs"
    by auto
  show ?case
    unfolding runFrames_snoc onResults_presence
    using h ih by (auto simp: updatePresence_def Let_def)
qed

lemma static_lost_run:
  assumes "isHandStable s" "handLostFrames s < 5" "list_all (\<lambda>r. \<not> hasHands r) rs"
  shows "handLostFrames (runFramesStatic recognize s rs) = handLostFrames s + length rs
         \<and> (isHandStable (runFramesStatic recognize s rs) \<longleftrightarrow> handLostFrames s + length rs < 5)"
  using assms(3)
proof (induction rs rule: rev_induct)
  case Nil
  then show ?case using assms(1,2) by (simp add: runFramesStatic_def)
next
  case (snoc r rs)
  then have h: "\<not> hasHands r" and ih: "handLostFrames (runFramesStatic recognize s rs) = handLostFrames s + length rs"
    "isHandStable (runFramesStatic recognize s rs) \<longleftrightarrow> handLostFrames s + length rs < 5"
    by auto
  show ?case
    unfolding runFramesStatic_snoc onResultsStatic_presence
    using h ih by (auto simp: updatePresence_def Let_def)
qed

lemma motion_lost_run:
  assumes "isHandStable s" "handLostFrames s < 5" "list_all (\<lambda>r. \<not> hasHands r) rs"
  shows "handLostFrames (runFrames md s rs) = handLostFrames s + length rs
         \<and> (isHandStable (runFrames md s rs) \<longleftrightarrow> handLostFrames s + length rs < 5)"
  using assms(3)
proof (induction rs rule: rev_induct)
  case Nil
  then show ?case using assms(1,2) by (simp add: runFrames_def)
next
  case (snoc r rs)
  then have h: "\<not> hasHands r" and ih: "handLostFrames (runFrames md s rs) = handLostFrames s + length rs"
    "isHandStable (runFrames md s rs) \<longleftrightarrow> handLostFrames s + length rs < 5"
    by auto
  show ?case
    unfolding runFrames_snoc onResults_presence
    using h ih by (auto simp: updatePresence_def Let_def)
qed

lemma gate_closed_after_match:
  assumes "gestureCycle t s = Inr s'" "gesture (motionDetectionResult s') \<noteq> None"
    "t - lastMotionTime s > 2000"
  shows "lastMotionTime s' = t \<and> motionFrames s' = []
         \<and> (\<forall>t'. t' - t \<le> 2000 \<longrightarrow> gestureCycle t' s' = Inr s')"
proof -
  from assms have "lastMotionTime s' = t \<and> motionFrames s' = []"
    by (auto simp: gestureCycle_def Let_def split: if_splits sum.splits option.splits)
  then show ?thesis by (simp add: closed_gate)
qed

text \<open>
  Claim C5 at its failing input. In the gesture-mode file a frame with a hand increments
  the presence counter twice, so starting from the initial state the hand is stably present
  after the second consecutive frame with a hand, not the third.
\<close>

theorem presence_after_two_frames:
  "isHandStable (runFrames Motion initialState [handTick restHand 1700000000000]) = False \<and>
   isHandStable (runFrames Motion initialState
       [handTick restHand 1700000000000, handTick restHand 1700000000050]) = True"
  by (simp add: runFrames_def onResults_def handTick_def initialState_def updatePresence_def
      recognizeASL_restHand getHandCenter_restHand updateFaceCue_def pushMotionFrame_def
      short_buffer_no_gesture commitLetter_def noMatch_def stateAfter_def)

text \<open>
  The letter-only file increments once: from the initial state the hand is not stable
  after two consecutive frames with a hand and is stable after three.
\<close>

lemma static_presence_after_three_frames:
  "isHandStable (runFramesStatic recognizeASL initialState
       [handTick restHand 1700000000000, handTick restHand 1700000000050]) = False \<and>
   isHandStable (runFramesStatic recognizeASL initialState
       [handTick restHand 1700000000000, handTick restHand 1700000000050,
        handTick restHand 1700000000100]) = True"
  by (simp add: runFramesStatic_def onResultsStatic_def handTick_def initialState_def
      updatePresence_def recognizeASL_restHand fingers_restHand commitLetter_def noMatch_def
      stateAfter_def)

text \<open>
  Claim C7 at its failing input. From the initial state, two frames with a hand whose
  clock readings are 50 ms apart both run the detector suite (one console line each), and
  the timer \<^verbatim>\<open>lastMotionTimeRef\<close> is not set, since no gesture matched.
\<close>

theorem suite_runs_on_consecutive_frames:
  "motionLog (runFrames Motion initialState
       [handTick restHand 1700000000000, handTick restHand 1700000000050]) = [1, 2]
   \<and> lastMotionTime (runFrames Motion initialState
       [handTick restHand 1700000000000, handTick restHand 1700000000050]) = 0"
  by (simp add: runFrames_def onResults_def handTick_def initialState_def updatePresence_def
      recognizeASL_restHand getHandCenter_restHand updateFaceCue_def pushMotionFrame_def
      short_buffer_no_gesture commitLetter_def noMatch_def stateAfter_def)

subsection \<open>Further properties\<close>

text \<open>
  The letter-only file's presence hysteresis: from an unstable state with a zero hand
  count, after a run of frames that all hold a hand the hand is stable exactly when the run
  has at least 3 frames; from a stable state with a zero lost count, after a run of frames
  without a hand the hand is still stable exactly when the run has fewer than 5 frames.
\<close>

theorem static_presence_hysteresis:
  "(\<not> isHandStable s \<and> handDetectedFrames s = 0 \<and> list_all hasHands rs \<longrightarrow>
      (isHandStable (runFramesStatic recognize s rs) \<longleftrightarrow> 3 \<le> length rs))
   \<and> (isHandStable s \<and> handLostFrames s = 0 \<and> list_all (\<lambda>r. \<not> hasHands r) rs \<longrightarrow>
      (isHandStable (runFramesStatic recognize s rs) \<longleftrightarrow> length rs < 5))"
proof (intro conjI impI)
  assume "\<not> isHandStable s \<and> handDetectedFrames s = 0 \<and> list_all hasHands rs"
  then show "isHandStable (runFramesStatic recognize s rs) \<longleftrightarrow> 3 \<le> length rs"
    using static_hand_run[of s rs recognize] by auto
next
  assume "isHandStable s \<and> handLostFrames s = 0 \<and> list_all (\<lambda>r. \<not> hasHands r) rs"
  then show "isHandStable (runFramesStatic recognize s rs) \<longleftrightarrow> length rs < 5"
    using static_lost_run[of s rs recognize] by auto
qed

theorem static_presence_hysteresis_witness:
  "isHandStable (runFramesStatic recognizeASL initialState
       [handTick restHand 0, handTick restHand 0, handTick restHand 0])
   \<and> \<not> isHandStable (runFramesStatic recognizeASL initialState
       [handTick restHand 0, handTick restHand 0])"
  using static_presence_hysteresis[of initialState
      "[handTick restHand 0, handTick restHand 0, handTick restHand 0]" recognizeASL]
    static_presence_hysteresis[of initialState
      "[handTick restHand 0, handTick restHand 0]" recognizeASL]
  by (simp add: initialState_def hasHands_def handTick_def)

text \<open>
  The gesture-mode file's loss threshold: from a stable state with a zero lost count, after
  a run of frames without a hand the hand is still stable exactly when the run has fewer
  than 5 frames.
\<close>

theorem motion_presence_lost_after_five:
  "isHandStable s \<and> handLostFrames s = 0 \<and> list_all (\<lambda>r. \<not> hasHands r) rs \<longrightarrow>
      (isHandStable (runFrames md s rs) \<longleftrightarrow> length rs < 5)"
  using motion_lost_run[of s rs md] by auto

theorem motion_presence_lost_after_five_witness:
  "isHandStable (runFrames Motion (initialState\<lparr>isHandStable := True\<rparr>)
       [emptyTick, emptyTick, emptyTick, emptyTick])
   \<and> \<not> isHandStable (runFrames Motion (initialState\<lparr>isHandStable := True\<rparr>)
       [emptyTick, emptyTick, emptyTick, emptyTick, emptyTick])"
  using motion_presence_lost_after_five[of "initialState\<lparr>isHandStable := True\<rparr>"
      "[emptyTick, emptyTick, emptyTick, emptyTick]" Motion]
    motion_presence_lost_after_five[of "initialState\<lparr>isHandStable := True\<rparr>"
      "[emptyTick, emptyTick, emptyTick, emptyTick, emptyTick]" Motion]
  by (simp add: initialState_def hasHands_def emptyTick_def)

text \<open>
  Cool-down after a match: a detection cycle that emits a gesture at clock reading \<open>t\<close> sets
  the timer to \<open>t\<close> and empties the buffer, and a cycle entered at any reading up to
  \<open>t + 2000\<close> does nothing.
\<close>

theorem cooldown_after_match:
  "gestureCycle t s = Inr s' \<and> gesture (motionDetectionResult s') \<noteq> None
   \<and> t - lastMotionTime s > 2000 \<longrightarrow>
     lastMotionTime s' = t \<and> motionFrames s' = []
     \<and> (\<forall>t'. t' - t \<le> 2000 \<longrightarrow> gestureCycle t' s' = Inr s')"
  using gate_closed_after_match[of t s s'] by blast

theorem cooldown_after_match_witness:
  "\<exists>s'. gestureCycle 3000 (initialState\<lparr>motionFrames := helloBuffer, faceDetectionState := noFace\<rparr>)
          = Inr s'
        \<and> lastMotionTime s' = 3000 \<and> motionFrames s' = [] \<and> gestureCycle 5000 s' = Inr s'"
proof -
  obtain s' where s': "gestureCycle 3000 (initialState\<lparr>motionFrames := helloBuffer, faceDetectionState := noFace\<rparr>)
          = Inr s'" and g: "gesture (motionDetectionResult s') = Some ''HELLO''"
    using hello_gestureCycle by simp
  have "(3000 :: int) - lastMotionTime (initialState\<lparr>motionFrames := helloBuffer, faceDetectionState := noFace\<rparr>) > 2000"
    by (simp add: initialState_def)
  with cooldown_after_match[of 3000 "initialState\<lparr>motionFrames := helloBuffer, faceDetectionState := noFace\<rparr>" s'] s' g
  have "lastMotionTime s' = 3000 \<and> motionFrames s' = []
     \<and> (\<forall>t'. t' - 3000 \<le> 2000 \<longrightarrow> gestureCycle t' s' = Inr s')"
    by simp
  then have "lastMotionTime s' = 3000 \<and> motionFrames s' = [] \<and> gestureCycle 5000 s' = Inr s'"
    by simp
  with s' show ?thesis by blast
qed

text \<open>
  The E rule: an input with no finger extended whose thumb tip is nearer to the wrist than
  0.7 times the index MCP is classified E with confidence 0.9.
\<close>

theorem fist_is_E:
  "getFingerStates l = Inr f \<and> extendedCount f = 0
   \<and> dist2d (l ! THUMB_TIP) (l ! WRIST) < dist2d (l ! INDEX_MCP) (l ! WRIST) * 0.7 \<longrightarrow>
     recognizeASL l = Inr \<lparr>letter = Some ''E'', confidence = 0.9\<rparr>"
  by (simp add: recognizeASL_def letterE_def Let_def)

lemma fingers_closedFist:
  "getFingerStates closedFist =
     Inr \<lparr>thumb = False, index = False, middle = False, ring = False, pinky = False\<rparr>"
  by (simp add: getFingerStates_long closedFist_def)

theorem fist_is_E_witness:
  "recognizeASL closedFist = Inr \<lparr>letter = Some ''E'', confidence = 0.9\<rparr>"
proof -
  have d: "dist2d (closedFist ! THUMB_TIP) (closedFist ! WRIST)
             < dist2d (closedFist ! INDEX_MCP) (closedFist ! WRIST) * 0.7"
    by (simp add: closedFist_def)
  have c: "extendedCount \<lparr>thumb = False, index = False, middle = False, ring = False, pinky = False\<rparr> = 0"
    by (simp add: extendedCount_def)
  from fist_is_E[of closedFist
      "\<lparr>thumb = False, index = False, middle = False, ring = False, pinky = False\<rparr>"]
    fingers_closedFist c d
  show ?thesis by blast
qed

text \<open>
  The Hello detector: on a buffer of at least 8 frames whose eighth-last frame lies above
  0.4 and whose last frame lies more than 0.05 to the left of it, the detector returns
  hello with confidence 0.8.
\<close>

theorem wave_detected:
  "8 \<le> length frames
   \<and> py (handCenter (frames ! (length frames - 8))) < 0.4
   \<and> px (handCenter (last frames)) < px (handCenter (frames ! (length frames - 8))) - 0.05 \<longrightarrow>
     detectWaveMotion frames = Some \<lparr>ptype = G_hello, detected = True, pconfidence = 0.8\<rparr>"
proof
  assume a: "8 \<le> length frames
   \<and> py (handCenter (frames ! (length frames - 8))) < 0.4
   \<and> px (handCenter (last frames)) < px (handCenter (frames ! (length frames - 8))) - 0.05"
  then have ne: "frames \<noteq> []" by auto
  have first: "map handCenter (lastN 8 frames) ! 0 = handCenter (frames ! (length frames - 8))"
    using a by (simp add: lastN_def)
  have len: "length (map handCenter (lastN 8 frames)) = 8"
    using a by (simp add: lastN_def)
  have lst: "map handCenter (lastN 8 frames) ! 7 = handCenter (last frames)"
    using a ne by (simp add: lastN_def last_conv_nth)
  show "detectWaveMotion frames = Some \<lparr>ptype = G_hello, detected = True, pconfidence = 0.8\<rparr>"
    using a unfolding detectWaveMotion_def Let_def len
    by (simp add: first lst)
qed

theorem wave_detected_witness:
  "detectWaveMotion (map waveFrame [0 ..< 8])
     = Some \<lparr>ptype = G_hello, detected = True, pconfidence = 0.8\<rparr>"
  using wave_detected[of "map waveFrame [0 ..< 8]"]
  by (simp add: waveFrame_def last_map)

text \<open>
  The finger-state extractor returns five booleans on every input of at least 21
  landmarks and throws on shorter ones.
\<close>

theorem finger_states_total:
  "(length l < 21 \<longrightarrow> getFingerStates l = Inl TypeError)
   \<and> (21 \<le> length l \<longrightarrow> (\<exists>f. getFingerStates l = Inr f))"
  using getFingerStates_short[of l] getFingerStates_long[of l] by auto

theorem finger_states_total_witness:
  "getFingerStates restHand =
     Inr \<lparr>thumb = False, index = False, middle = False, ring = False, pinky = False\<rparr>
   \<and> getFingerStates [] = Inl TypeError"
  using finger_states_total[of "[]"] fingers_restHand by simp

lemma commit_history_empty:
  "detectionHistory s = [] \<Longrightarrow> detectionHistory (commitLetter lt conf tnow s) = []"
  by (auto simp: commitLetter_def Let_def lastN_def split: option.splits)

lemma updatePresence_history:
  "detectionHistory (updatePresence h s) = detectionHistory s"
  by (auto simp: updatePresence_def Let_def)

lemma gestureCycle_history:
  "detectionHistory (stateAfter (gestureCycle t s)) = detectionHistory s"
  by (auto simp: gestureCycle_def stateAfter_def Let_def split: sum.splits option.splits)

lemma onResultsStatic_history_empty:
  "detectionHistory s = [] \<Longrightarrow> detectionHistory (stateAfter (onResultsStatic recognize s r)) = []"
  by (auto simp: onResultsStatic_def stateAfter_def Let_def commit_history_empty
      updatePresence_history split: option.splits list.splits sum.splits)

lemma onResults_history_empty:
  assumes e: "detectionHistory s = []"
  shows "detectionHistory (stateAfter (onResults md s r)) = []"
proof (cases "hasHands r")
  case False
  then have "multiHandLandmarks r = None \<or> multiHandLandmarks r = Some []"
    by (auto simp: hasHands_def split: option.splits list.splits)
  then show ?thesis using e
    by (simp add: onResults_no_hand stateAfter_def updatePresence_history)
next
  case True
  then obtain lms others where h: "multiHandLandmarks r = Some (lms # others)"
    by (auto simp: hasHands_def split: option.splits list.splits)
  show ?thesis
  proof (cases "recognizeASL lms")
    case (Inl e')
    then show ?thesis using h e
      by (simp add: onResults_def Let_def stateAfter_def updatePresence_history)
  next
    case c: (Inr c)
    show ?thesis
    proof (cases "updateFaceCue md (faceResults s)")
      case (Inl e')
      then show ?thesis using h c e
        by (simp add: onResults_def Let_def stateAfter_def updatePresence_other_fields
            updatePresence_history)
    next
      case cue: (Inr cue)
      define fr where "fr = \<lparr>timestamp = clockMotionNow r, handCenter = getHandCenter lms,
          handShape = (case letter c of None \<Rightarrow> ''unknown'' | Some l \<Rightarrow> if l = [] then ''unknown'' else l),
          landmarks = lms\<rparr>"
      define s4 where "s4 = (updatePresence True s)\<lparr>handDetectedFrames := handDetectedFrames (updatePresence True s) + 1,
          handLostFrames := 0, faceDetectionState := cue,
          motionFrames := pushMotionFrame (motionFrames s) fr\<rparr>"
      have step: "onResults md s r =
          (case gestureCycle (clockMotionNow r) s4 of Inl thrown \<Rightarrow> Inl thrown
           | Inr s5 \<Rightarrow> Inr (commitLetter (letter c) (confidence c) (clockNow r)
                (s5\<lparr>detectionResult := \<lparr>letter = letter c, confidence = confidence c, handDetected = True\<rparr>\<rparr>)))"
        using h c cue
        by (simp add: onResults_def Let_def s4_def fr_def updatePresence_other_fields
            split: sum.splits)
      have s4: "detectionHistory s4 = []"
        using e by (simp add: s4_def updatePresence_history)
      show ?thesis
        using gestureCycle_history[of "clockMotionNow r" s4] s4 unfolding step
        by (auto simp: stateAfter_def commit_history_empty split: sum.splits)
    qed
  qed
qed

text \<open>
  The detection history is empty after every run of either hook from the initial state: a
  qualifying letter is pushed onto an empty history, the test over the last two entries
  then sees that letter alone and passes, and the commit clears the history again.
\<close>

theorem detection_history_always_empty:
  "detectionHistory (runFrames md initialState rs) = []
   \<and> detectionHistory (runFramesStatic recognize initialState rs) = []"
proof
  show "detectionHistory (runFrames md initialState rs) = []"
  proof (induction rs rule: rev_induct)
    case Nil
    show ?case by (simp add: runFrames_def initialState_def)
  next
    case (snoc r rs)
    then show ?case unfolding runFrames_snoc by (rule onResults_history_empty)
  qed
  show "detectionHistory (runFramesStatic recognize initialState rs) = []"
  proof (induction rs rule: rev_induct)
    case Nil
    show ?case by (simp add: runFramesStatic_def initialState_def)
  next
    case (snoc r rs)
    then show ?case unfolding runFramesStatic_snoc by (rule onResultsStatic_history_empty)
  qed
qed

end
